theory Spec2Isabelle
  imports
    Complex_Main
    "HOL-Library.Char_ord"
    "HOL-Library.List_Lexorder"
    "HOL-Library.Product_Lexorder"
begin

section \<open>Data model\<close>

text \<open>
  The scripts pass pandas data frames and Python dicts around. A data frame is modelled as
  the list of its rows, a row as a record with one field per column the scripts read or
  write. Sensor values and durations are Python floats: a float is modelled as the real
  number it stands for, and a missing value (NaN) of a statistic as \<open>None\<close>. Where a
  script takes a mean or formats a number, the rounding of double precision is modelled
  too.
\<close>

section \<open>Double-precision arithmetic\<close>

text \<open>Rounding to the nearest integer, a tie to the even neighbour.\<close>

definition round_half_even :: "real \<Rightarrow> int" where
  "round_half_even x =
     (let f = \<lfloor>x\<rfloor>; d = x - of_int f
      in if d < 1 / 2 then f
         else if d > 1 / 2 then f + 1
         else if even f then f else f + 1)"

text \<open>The double nearest to a real (IEEE 754 binary64, round to nearest, ties to even):
  a significand of 53 bits at the exponent of the value. The exponent is not bounded, so
  overflow and subnormal numbers are left out; sensor values are far from both.\<close>

definition fl64 :: "real \<Rightarrow> real" where
  "fl64 x =
     (if x = 0 then 0
      else (let e = \<lfloor>log 2 \<bar>x\<bar>\<rfloor> - 52
            in of_int (round_half_even (x / 2 powi e)) * 2 powi e))"

text \<open>Addition and division of doubles: the exact result, rounded.\<close>

definition fadd :: "real \<Rightarrow> real \<Rightarrow> real" where
  "fadd x y = fl64 (x + y)"

definition fdiv :: "real \<Rightarrow> real \<Rightarrow> real" where
  "fdiv x y = fl64 (x / y)"

text \<open>The sum of a column of doubles, added one by one from the left.\<close>

definition fsum :: "real list \<Rightarrow> real" where
  "fsum xs = fold (\<lambda>x s. fadd s x) xs 0"

text \<open>One sensor reading of a session payload: the keys \<open>ts\<close>, \<open>v\<close>, \<open>a\<close>,
  \<open>pl\<close>, \<open>mp\<close>, \<open>sl\<close> of an entry of the \<open>data\<close> array.\<close>

record sample =
  ts :: real
  v :: real
  a :: real
  pl :: real
  mp :: real
  sl :: real

text \<open>The dict built by \<open>calculate_window_features\<close>.\<close>

record window_features =
  window_minutes :: real
  data_points :: nat
  avg_velocity :: "real option"
  max_velocity :: "real option"
  std_velocity :: "real option"
  p90_velocity :: "real option"
  avg_acceleration :: "real option"
  max_acceleration :: "real option"
  std_acceleration :: "real option"
  p90_acceleration :: "real option"
  cumulative_player_load :: real
  avg_player_load_rate :: real
  avg_metabolic_power :: "real option"
  max_metabolic_power :: "real option"
  p90_metabolic_power :: "real option"
  recent_avg_velocity :: "real option"
  recent_max_acceleration :: "real option"
  avg_smooth_load :: "real option"

text \<open>The same dict after \<open>create_rolling_features\<close> has added the session's metadata:
  one row of \<open>rolling_window_features.csv\<close>.\<close>

record feature_row = window_features +
  date :: string
  athlete_id :: string
  athlete_name :: string
  activity_id :: string
  session_duration :: real

text \<open>A row of \<open>labeled_training_data.csv\<close>: a feature row with its label.\<close>

record labeled_row = feature_row +
  injured :: bool
  risk_level :: string

text \<open>A row of \<open>injury_dates.csv\<close> (columns \<open>athlete_name, injury_date, injury_type,
  notes\<close>). The date is a string as read from the file, or a day number once
  \<open>parse_injury_dates\<close> has converted the column. \<open>injury_type\<close> is \<open>None\<close> in a
  frame without that column, \<open>i_notes\<close> in a row whose notes cell is empty.\<close>

record 'd injury_row =
  i_athlete_name :: string
  injury_date :: 'd
  injury_type :: "string option"
  i_notes :: "string option"

section \<open>create\_labeled\_dataset.py\<close>

text \<open>The loop that fills the set \<open>injury_lookup\<close> with one key per injury record.\<close>

definition injury_lookup :: "string injury_row list \<Rightarrow> (string \<times> string) set" where
  "injury_lookup injuries_df =
     fold (\<lambda>row lookup. insert (i_athlete_name row, injury_date row) lookup) injuries_df {}"

text \<open>The dict \<open>{True: 'injured', False: 'normal'}\<close> mapped over the label column.\<close>

definition risk_level_of :: "bool \<Rightarrow> string" where
  "risk_level_of b = (if b then ''injured'' else ''normal'')"

definition label_row :: "(string \<times> string) set \<Rightarrow> feature_row \<Rightarrow> labeled_row" where
  "label_row lookup row =
     (let inj = ((athlete_name row, date row) \<in> lookup)
      in feature_row.extend row (labeled_row.fields inj (risk_level_of inj)))"

definition create_labeled_dataset ::
  "feature_row list \<Rightarrow> string injury_row list \<Rightarrow> labeled_row list" where
  "create_labeled_dataset features_df injuries_df =
     map (label_row (injury_lookup injuries_df)) features_df"

section \<open>train\_model.py\<close>

definition fillna0 :: "real option \<Rightarrow> real" where
  "fillna0 x = (case x of None \<Rightarrow> 0 | Some y \<Rightarrow> y)"

text \<open>\<open>df[feature_cols].fillna(0)\<close> on one row, in the order of \<open>feature_cols\<close>.\<close>

definition feature_vector :: "labeled_row \<Rightarrow> real list" where
  "feature_vector r =
     [window_minutes r, real (data_points r),
      fillna0 (avg_velocity r), fillna0 (max_velocity r), fillna0 (std_velocity r),
      fillna0 (p90_velocity r),
      fillna0 (avg_acceleration r), fillna0 (max_acceleration r),
      fillna0 (std_acceleration r), fillna0 (p90_acceleration r),
      cumulative_player_load r, avg_player_load_rate r,
      fillna0 (avg_metabolic_power r), fillna0 (max_metabolic_power r),
      fillna0 (p90_metabolic_power r),
      fillna0 (recent_avg_velocity r), fillna0 (recent_max_acceleration r),
      fillna0 (avg_smooth_load r)]"

text \<open>Selecting the rows of a frame with a boolean mask keeps each selected row under
  its index label, so a partition is a list of (label, row) pairs.\<close>

definition boolean_index :: "'a list \<Rightarrow> bool list \<Rightarrow> (nat \<times> 'a) list" where
  "boolean_index xs msk =
     map (\<lambda>(i, x, m). (i, x))
         (filter (\<lambda>(i, x, m). m) (zip [0..<length xs] (zip xs msk)))"

definition train_mask :: "labeled_row list \<Rightarrow> bool list" where
  "train_mask df = map (\<lambda>r. date r = ''2025-01-09'') df"

definition test_mask :: "labeled_row list \<Rightarrow> bool list" where
  "test_mask df = map (\<lambda>r. date r = ''2025-01-17'') df"

record split =
  X_train :: "(nat \<times> real list) list"
  X_test :: "(nat \<times> real list) list"
  y_train :: "(nat \<times> bool) list"
  y_test :: "(nat \<times> bool) list"

definition temporal_split :: "labeled_row list \<Rightarrow> split" where
  "temporal_split df =
     (let X = map feature_vector df;
          y = map injured df
      in \<lparr> X_train = boolean_index X (train_mask df),
           X_test = boolean_index X (test_mask df),
           y_train = boolean_index y (train_mask df),
           y_test = boolean_index y (test_mask df) \<rparr>)"

text \<open>The index labels of a partition.\<close>

definition labels :: "(nat \<times> 'a) list \<Rightarrow> nat set" where
  "labels part = fst ` set part"

section \<open>rolling\_window\_features.py\<close>

text \<open>The exceptions the scripts can raise on a well-typed payload.\<close>

datatype py_error = AttributeError | ValueError

text \<open>One session object of a payload file. A key that may be absent is an option, read
  with the default the script gives to \<open>dict.get\<close>.\<close>

record session_obj =
  o_athlete_id :: "string option"
  athlete_first_name :: "string option"
  athlete_last_name :: "string option"
  data :: "sample list option"

text \<open>A parsed payload file: a top-level object, or an array of objects.\<close>

datatype payload = Obj session_obj | Arr "session_obj list"

definition get_or :: "'a \<Rightarrow> 'a option \<Rightarrow> 'a" where
  "get_or d x = (case x of None \<Rightarrow> d | Some y \<Rightarrow> y)"

text \<open>\<open>str.strip()\<close> removes the white space of Unicode at both ends. Characters
  are bytes here and a string is UTF-8 text, so a white-space character is the byte
  sequence that encodes it: U+0009 to U+000D, U+001C to U+0020, U+0085, U+00A0, U+1680,
  U+2000 to U+200A, U+2028, U+2029, U+202F, U+205F and U+3000.\<close>

definition whitespace :: "string list" where
  "whitespace =
     [[CHR 0x09], [CHR 0x0A], [CHR 0x0B], [CHR 0x0C], [CHR 0x0D],
      [CHR 0x1C], [CHR 0x1D], [CHR 0x1E], [CHR 0x1F], [CHR 0x20],
      [CHR 0xC2, CHR 0x85], [CHR 0xC2, CHR 0xA0],
      [CHR 0xE1, CHR 0x9A, CHR 0x80],
      [CHR 0xE2, CHR 0x80, CHR 0x80], [CHR 0xE2, CHR 0x80, CHR 0x81],
      [CHR 0xE2, CHR 0x80, CHR 0x82], [CHR 0xE2, CHR 0x80, CHR 0x83],
      [CHR 0xE2, CHR 0x80, CHR 0x84], [CHR 0xE2, CHR 0x80, CHR 0x85],
      [CHR 0xE2, CHR 0x80, CHR 0x86], [CHR 0xE2, CHR 0x80, CHR 0x87],
      [CHR 0xE2, CHR 0x80, CHR 0x88], [CHR 0xE2, CHR 0x80, CHR 0x89],
      [CHR 0xE2, CHR 0x80, CHR 0x8A],
      [CHR 0xE2, CHR 0x80, CHR 0xA8], [CHR 0xE2, CHR 0x80, CHR 0xA9],
      [CHR 0xE2, CHR 0x80, CHR 0xAF], [CHR 0xE2, CHR 0x81, CHR 0x9F],
      [CHR 0xE3, CHR 0x80, CHR 0x80]]"

text \<open>Dropping from the front of a string every sequence of a list that starts it.\<close>

fun drop_leading :: "string list \<Rightarrow> string \<Rightarrow> string" where
  "drop_leading ws [] = []"
| "drop_leading ws (c # cs) =
     (case find (\<lambda>w. w \<noteq> [] \<and> take (length w) (c # cs) = w) ws of
        Some w \<Rightarrow> drop_leading ws (drop (length w - 1) cs)
      | None \<Rightarrow> c # cs)"

definition strip :: "string \<Rightarrow> string" where
  "strip s = rev (drop_leading (map rev whitespace) (rev (drop_leading whitespace s)))"

text \<open>\<open>s.replace(old, '')\<close> for a non-empty \<open>old\<close>: every occurrence, left to right,
  without overlaps.\<close>

fun remove_sub :: "string \<Rightarrow> string \<Rightarrow> string" where
  "remove_sub old [] = []"
| "remove_sub old (c # cs) =
     (if old \<noteq> [] \<and> take (length old) (c # cs) = old
      then remove_sub old (drop (length old - 1) cs)
      else c # remove_sub old cs)"

text \<open>\<open>s.split(sep)\<close> for a one-character separator.\<close>

fun split_on :: "char \<Rightarrow> string \<Rightarrow> string list" where
  "split_on sep [] = [[]]"
| "split_on sep (c # cs) =
     (if c = sep then [] # split_on sep cs
      else (case split_on sep cs of
              w # ws \<Rightarrow> (c # w) # ws
            | [] \<Rightarrow> [[c]]))"

text \<open>\<open>load_session_data\<close>: an array payload stands for its first object; an empty
  array has no \<open>get\<close> and raises. The triple \<open>(None, None, None)\<close> returned for a
  session without samples is \<open>None\<close>.\<close>

definition load_session_data ::
  "payload \<Rightarrow> py_error + (sample list \<times> string \<times> string) option" where
  "load_session_data p =
     (case (case p of Obj d \<Rightarrow> Some d | Arr (d # _) \<Rightarrow> Some d | Arr [] \<Rightarrow> None) of
        None \<Rightarrow> Inl AttributeError
      | Some d \<Rightarrow>
          (let aid = get_or [] (o_athlete_id d);
               aname = strip (get_or [] (athlete_first_name d) @ '' ''
                              @ get_or [] (athlete_last_name d));
               data_points = get_or [] (data d)
           in if length data_points = 0 then Inr None
              else Inr (Some (data_points, aid, aname))))"

subsection \<open>Series statistics\<close>

text \<open>pandas' reductions of a numeric column without missing cells. A reduction that
  pandas answers with NaN is \<open>None\<close>. The maximum and the quantile of a column in which
  all values are equal involve no rounding.\<close>

text \<open>\<open>Series.mean()\<close> of a non-empty column: the sum of the doubles, divided by
  their number, in double precision.\<close>

definition avg :: "real list \<Rightarrow> real" where
  "avg xs = fdiv (fsum xs) (real (length xs))"

definition mean :: "real list \<Rightarrow> real option" where
  "mean xs = (if xs = [] then None else Some (avg xs))"

definition maximum :: "real list \<Rightarrow> real option" where
  "maximum xs = (if xs = [] then None else Some (fold max (tl xs) (hd xs)))"

text \<open>\<open>Series.std()\<close>: the sample standard deviation (denominator \<open>n - 1\<close>), NaN for
  fewer than two values.\<close>

definition std :: "real list \<Rightarrow> real option" where
  "std xs =
     (let n = length xs
      in if n < 2 then None
         else (let m = sum_list xs / real n
               in Some (sqrt (sum_list (map (\<lambda>x. (x - m)\<^sup>2) xs) / real (n - 1)))))"

text \<open>\<open>Series.quantile(q)\<close>: linear interpolation between the order statistics around
  the position \<open>(n - 1) * q\<close>.\<close>

definition quantile :: "real \<Rightarrow> real list \<Rightarrow> real option" where
  "quantile q xs =
     (if xs = [] then None
      else (let srt = sort xs;
                h = real (length xs - 1) * q;
                lo = nat \<lfloor>h\<rfloor>;
                hi = min (lo + 1) (length xs - 1)
            in Some (srt ! lo + (srt ! hi - srt ! lo) * (h - real lo))))"

text \<open>\<open>Series.tail(k)\<close>: the last \<open>k\<close> values.\<close>

definition tail :: "nat \<Rightarrow> 'a list \<Rightarrow> 'a list" where
  "tail k xs = drop (length xs - k) xs"

text \<open>\<open>df.iloc[start_idx:end_idx]\<close> for indices that are not negative.\<close>

definition iloc :: "'a list \<Rightarrow> nat \<Rightarrow> nat \<Rightarrow> 'a list" where
  "iloc df start_idx end_idx = drop start_idx (take end_idx df)"

definition calculate_window_features ::
  "sample list \<Rightarrow> nat \<Rightarrow> nat \<Rightarrow> real \<Rightarrow> window_features option" where
  "calculate_window_features df start_idx end_idx wmin =
     (let window_df = iloc df start_idx end_idx
      in if length window_df = 0 then None
         else Some
           \<lparr> window_minutes = wmin,
             data_points = length window_df,
             avg_velocity = mean (map v window_df),
             max_velocity = maximum (map v window_df),
             std_velocity = std (map v window_df),
             p90_velocity = quantile (9 / 10) (map v window_df),
             avg_acceleration = mean (map a window_df),
             max_acceleration = maximum (map a window_df),
             std_acceleration = std (map a window_df),
             p90_acceleration = quantile (9 / 10) (map a window_df),
             cumulative_player_load =
               (if length window_df > 0 then pl (last window_df) else 0),
             avg_player_load_rate =
               (if wmin > 0 then (pl (last window_df) - pl (hd window_df)) / wmin else 0),
             avg_metabolic_power = mean (map mp window_df),
             max_metabolic_power = maximum (map mp window_df),
             p90_metabolic_power = quantile (9 / 10) (map mp window_df),
             recent_avg_velocity = mean (tail 1200 (map v window_df)),
             recent_max_acceleration = maximum (tail 1200 (map a window_df)),
             avg_smooth_load = mean (map sl window_df) \<rparr>)"

text \<open>The column \<open>minutes_from_start\<close> of a non-empty frame.\<close>

definition minutes_from_start :: "sample list \<Rightarrow> real list" where
  "minutes_from_start df = map (\<lambda>s. (ts s - ts (hd df)) / 60) df"

definition total_duration :: "sample list \<Rightarrow> real" where
  "total_duration df = fold max (tl (minutes_from_start df)) (hd (minutes_from_start df))"

text \<open>\<open>window_mask.sum()\<close>: how many samples lie within the first \<open>wmin\<close> minutes.\<close>

definition window_end_idx :: "sample list \<Rightarrow> real \<Rightarrow> nat" where
  "window_end_idx df wmin = length (filter (\<lambda>m. m \<le> wmin) (minutes_from_start df))"

text \<open>The loop over \<open>window_intervals\<close>: \<open>break\<close> at the first interval beyond the
  session's duration, \<open>continue\<close> past an interval with fewer than 100 samples. \<open>meta\<close>
  adds the session's metadata to a feature dict.\<close>

fun windows_loop ::
  "sample list \<Rightarrow> (window_features \<Rightarrow> feature_row) \<Rightarrow> real list \<Rightarrow> feature_row list" where
  "windows_loop df meta [] = []"
| "windows_loop df meta (window_min # rest) =
     (if window_min > total_duration df then []
      else if window_end_idx df window_min < 100 then windows_loop df meta rest
      else (case calculate_window_features df 0 (window_end_idx df window_min) window_min of
              None \<Rightarrow> windows_loop df meta rest
            | Some features \<Rightarrow> meta features # windows_loop df meta rest))"

definition add_metadata ::
  "string \<Rightarrow> string \<Rightarrow> string \<Rightarrow> string \<Rightarrow> real \<Rightarrow> window_features \<Rightarrow> feature_row" where
  "add_metadata d aid aname act dur features =
     window_features.extend features (feature_row.fields d aid aname act dur)"

text \<open>\<open>create_rolling_features\<close> on the file's name and parsed payload. Unpacking the
  name into three parts raises when it has another number of parts.\<close>

definition create_rolling_features ::
  "string \<Rightarrow> payload \<Rightarrow> real list \<Rightarrow> py_error + feature_row list option" where
  "create_rolling_features filename p window_intervals =
     (case load_session_data p of
        Inl e \<Rightarrow> Inl e
      | Inr None \<Rightarrow> Inr None
      | Inr (Some (df, aid, aname)) \<Rightarrow>
          (case split_on (CHR ''_'') (remove_sub ''.json'' filename) of
             [d, _, act] \<Rightarrow>
               Inr (Some (windows_loop df
                            (add_metadata d aid aname act (total_duration df))
                            window_intervals))
           | _ \<Rightarrow> Inl ValueError))"

definition default_window_intervals :: "real list" where
  "default_window_intervals = [5, 10, 15, 20, 30, 45, 60]"

section \<open>Formatting numbers\<close>

text \<open>\<open>str(n)\<close> of a natural number, as an f-string prints it.\<close>

definition digit :: "nat \<Rightarrow> char" where
  "digit n = ''0123456789'' ! n"

fun str_nat :: "nat \<Rightarrow> string" where
  "str_nat n = (if n < 10 then [digit n] else str_nat (n div 10) @ [digit (n mod 10)])"

declare str_nat.simps [simp del]

text \<open>The format \<open>:.1f\<close> of a float: the value formatted is the double, which is
  rounded to the nearest tenth, a tie to the even neighbour.\<close>

definition fmt1 :: "real \<Rightarrow> string" where
  "fmt1 x =
     (let y = fl64 x;
          r = nat (round_half_even (\<bar>y\<bar> * 10))
      in (if y < 0 then ''-'' else []) @ str_nat (r div 10) @ ''.'' @ [digit (r mod 10)])"

section \<open>auto\_detect\_injuries.py\<close>

text \<open>A row of \<open>lightweight_features.csv\<close>, with the columns the script reads.\<close>

record lw_session =
  lw_date :: string
  lw_athlete_name :: string
  lw_athlete_id :: string
  lw_data_points :: int
  lw_duration_minutes :: real

text \<open>A dict of the list \<open>injured_athletes\<close>.\<close>

record detected =
  det_athlete_name :: string
  det_athlete_id :: string
  det_reason :: string
  det_data_points :: int
  det_duration_minutes :: real

text \<open>The body of the loop over the day's sessions: the first criterion that holds
  decides.\<close>

definition detect_session :: "real \<Rightarrow> lw_session \<Rightarrow> detected option" where
  "detect_session avg_duration session =
     (let aname = lw_athlete_name session;
          dpoints = lw_data_points session;
          duration = lw_duration_minutes session
      in if dpoints = 0 then
           Some \<lparr> det_athlete_name = aname, det_athlete_id = lw_athlete_id session,
                  det_reason = ''NO DATA'', det_data_points = 0, det_duration_minutes = 0 \<rparr>
         else if dpoints < 1000 then
           Some \<lparr> det_athlete_name = aname, det_athlete_id = lw_athlete_id session,
                  det_reason = ''MINIMAL DATA'', det_data_points = dpoints,
                  det_duration_minutes = duration \<rparr>
         else if duration < avg_duration * (5 / 10) \<and> avg_duration > 10 then
           Some \<lparr> det_athlete_name = aname, det_athlete_id = lw_athlete_id session,
                  det_reason = ''EARLY EXIT ('' @ fmt1 duration @ '' min vs avg ''
                                 @ fmt1 avg_duration @ '' min)'',
                  det_data_points = dpoints, det_duration_minutes = duration \<rparr>
         else None)"

definition date_sessions :: "lw_session list \<Rightarrow> string \<Rightarrow> lw_session list" where
  "date_sessions df target_date = filter (\<lambda>s. lw_date s = target_date) df"

definition detect_injuries_on_date :: "lw_session list \<Rightarrow> string \<Rightarrow> detected list" where
  "detect_injuries_on_date df target_date =
     (let sessions = date_sessions df target_date
      in if length sessions = 0 then []
         else (let avg_duration = avg (map lw_duration_minutes sessions)
               in List.map_filter (detect_session avg_duration) sessions))"

text \<open>An EARLY EXIT flag is a reason that starts with these words.\<close>

definition is_early_exit :: "string \<Rightarrow> bool" where
  "is_early_exit r \<longleftrightarrow> take 10 r = ''EARLY EXIT''"

text \<open>\<open>sub in s\<close> on strings.\<close>

fun contains :: "string \<Rightarrow> string \<Rightarrow> bool" where
  "contains sub [] \<longleftrightarrow> sub = []"
| "contains sub (c # cs) \<longleftrightarrow> take (length sub) (c # cs) = sub \<or> contains sub cs"

text \<open>The two assignments \<open>df_injuries.at[idx, 'athlete_name']\<close> and
  \<open>df_injuries.at[idx, 'notes']\<close>.\<close>

definition assign_detected ::
  "string injury_row list \<Rightarrow> nat \<Rightarrow> string \<Rightarrow> string \<Rightarrow> string injury_row list" where
  "assign_detected tbl idx aname note =
     tbl[idx := (tbl ! idx)\<lparr> i_athlete_name := aname, i_notes := Some note \<rparr>]"

text \<open>One iteration of the loop over \<open>df_injuries.iterrows()\<close>: the state is the table and
  \<open>updated_count\<close>; \<open>detected_injuries\<close> is the dict from a date to the day's detections.\<close>

definition update_step ::
  "(string \<rightharpoonup> detected list) \<Rightarrow> nat \<times> string injury_row
     \<Rightarrow> string injury_row list \<times> nat \<Rightarrow> string injury_row list \<times> nat" where
  "update_step detected_injuries ir st =
     (case (ir, st) of ((idx, row), (tbl, updated_count)) \<Rightarrow>
       (let current_name = i_athlete_name row;
            date_injuries = (case detected_injuries (injury_date row) of
                               None \<Rightarrow> [] | Some ds \<Rightarrow> ds)
        in if \<not> contains ''Unknown'' current_name then (tbl, updated_count)
           else if date_injuries = [] then (tbl, updated_count)
           else if length date_injuries = 1 then
             (assign_detected tbl idx (det_athlete_name (date_injuries ! 0))
                (det_reason (date_injuries ! 0)), updated_count + 1)
           else if length date_injuries > 1 then
             (if CHR ''A'' \<in> set current_name \<and> length date_injuries > 0 then
                (assign_detected tbl idx (det_athlete_name (date_injuries ! 0))
                   (det_reason (date_injuries ! 0)), updated_count + 1)
              else if CHR ''B'' \<in> set current_name \<and> length date_injuries > 1 then
                (assign_detected tbl idx (det_athlete_name (date_injuries ! 1))
                   (det_reason (date_injuries ! 1)), updated_count + 1)
              else if contains ''Unknown'' current_name
                      \<and> \<not> (CHR ''A'' \<in> set current_name \<or> CHR ''B'' \<in> set current_name) then
                (assign_detected tbl idx (det_athlete_name (date_injuries ! 0))
                   (det_reason (date_injuries ! 0) @ '' (WARNING: ''
                      @ str_nat (length date_injuries) @ '' injuries detected on this date)''),
                 updated_count + 1)
              else (tbl, updated_count))
           else (tbl, updated_count)))"

text \<open>\<open>update_injury_dates_csv\<close> on the table read from the file; the table it returns is
  the one it writes back.\<close>

definition update_injury_dates_csv ::
  "string injury_row list \<Rightarrow> (string \<rightharpoonup> detected list) \<Rightarrow> string injury_row list" where
  "update_injury_dates_csv df_injuries detected_injuries =
     fst (fold (update_step detected_injuries)
            (zip [0..<length df_injuries] df_injuries) (df_injuries, 0))"

section \<open>detect\_injuries.py\<close>

text \<open>A file of the data directory: its size in bytes, its name, its path, and its parsed
  content (\<open>None\<close> when reading or parsing it raises).\<close>

record file_entry =
  st_size :: nat
  fe_name :: string
  fe_path :: string
  fe_content :: "payload option"

text \<open>The dict \<open>session_info\<close>.\<close>

record session_info =
  si_date :: string
  si_athlete_id :: string
  si_athlete_name :: string
  si_activity_id :: string
  file_size :: nat
  si_data_points :: nat
  duration_minutes :: real
  file_path :: string

text \<open>A dict of \<open>injured_candidates\<close>: the session's entries, the reason, and the
  activity's average duration on an early-exit candidate.\<close>

record candidate = session_info +
  reason :: string
  cand_avg_duration :: "real option"

definition make_candidate :: "session_info \<Rightarrow> string \<Rightarrow> real option \<Rightarrow> candidate" where
  "make_candidate s r av = session_info.extend s (candidate.fields r av)"

text \<open>The empty dict that stands for an empty array payload.\<close>

definition empty_obj :: session_obj where
  "empty_obj = \<lparr> o_athlete_id = None, athlete_first_name = None, athlete_last_name = None,
                  data = None \<rparr>"

text \<open>Both payload formats: an array stands for its first object, an empty array for
  the empty dict.\<close>

definition payload_obj :: "payload \<Rightarrow> session_obj" where
  "payload_obj p = (case p of Obj x \<Rightarrow> x | Arr (x # _) \<Rightarrow> x | Arr [] \<Rightarrow> empty_obj)"

text \<open>The first part of the loop body: a file whose name has not three parts, or whose
  content cannot be read, is skipped.\<close>

definition session_of_file :: "file_entry \<Rightarrow> session_info option" where
  "session_of_file f =
     (case split_on (CHR ''_'') (remove_sub ''.json'' (fe_name f)) of
        [d, aid, act] \<Rightarrow>
          (case fe_content f of
             None \<Rightarrow> None
           | Some p \<Rightarrow>
               (let obj = payload_obj p;
                    aname = strip (get_or ''Unknown'' (athlete_first_name obj) @ '' ''
                                   @ get_or [] (athlete_last_name obj));
                    dpoints = get_or [] (data obj);
                    num_points = length dpoints;
                    dur = (if num_points > 0
                           then (ts (last dpoints) - ts (hd dpoints)) / 60 else 0)
                in Some \<lparr> si_date = d, si_athlete_id = aid, si_athlete_name = aname,
                          si_activity_id = act, file_size = st_size f,
                          si_data_points = num_points, duration_minutes = dur,
                          file_path = fe_path f \<rparr>))
      | _ \<Rightarrow> None)"

text \<open>The second part: flag suspicious files.\<close>

definition flag_suspicious :: "session_info \<Rightarrow> candidate option" where
  "flag_suspicious s =
     (if file_size s < 1000 then Some (make_candidate s ''NO DATA (file < 1KB)'' None)
      else if si_data_points s < 100 then
        Some (make_candidate s
                (''MINIMAL DATA ('' @ str_nat (si_data_points s) @ '' points)'') None)
      else None)"

text \<open>A \<open>defaultdict(list)\<close> keeps its keys in the order of their first insertion.\<close>

fun dict_append :: "('k \<times> 'v list) list \<Rightarrow> 'k \<Rightarrow> 'v \<Rightarrow> ('k \<times> 'v list) list" where
  "dict_append [] k x = [(k, [x])]"
| "dict_append ((k', xs) # rest) k x =
     (if k' = k then (k', xs @ [x]) # rest else (k', xs) # dict_append rest k x)"

definition athlete_sessions :: "session_info list \<Rightarrow> (string \<times> session_info list) list" where
  "athlete_sessions sessions = fold (\<lambda>s d. dict_append d (si_athlete_id s) s) sessions []"

definition session_durations :: "session_info list \<Rightarrow> (string \<times> real list) list" where
  "session_durations sessions =
     fold (\<lambda>s d. dict_append d (si_activity_id s) (duration_minutes s)) sessions []"

definition activity_avg_duration :: "session_info list \<Rightarrow> (string \<times> real) list" where
  "activity_avg_duration sessions =
     map (\<lambda>(act, durations).
            (act, if durations \<noteq> [] then sum_list durations / real (length durations) else 0))
         (session_durations sessions)"

text \<open>The check for early termination of one session.\<close>

definition early_exit :: "(string \<times> real) list \<Rightarrow> session_info \<Rightarrow> candidate option" where
  "early_exit avgs s =
     (let av = (case map_of avgs (si_activity_id s) of None \<Rightarrow> 0 | Some x \<Rightarrow> x)
      in if av > 10 \<and> duration_minutes s > 0 then
           (if duration_minutes s < av * (5 / 10) then
              Some (make_candidate s
                      (''EARLY EXIT ('' @ fmt1 (duration_minutes s) @ '' min vs avg ''
                         @ fmt1 av @ '' min)'') (Some av))
            else None)
         else None)"

text \<open>The list \<open>injured_candidates\<close> after both loops: the flagged files in file order,
  then the early exits athlete by athlete.\<close>

definition injured_candidates :: "file_entry list \<Rightarrow> candidate list" where
  "injured_candidates files =
     (let sessions = List.map_filter session_of_file files
      in List.map_filter flag_suspicious sessions
         @ concat (map (\<lambda>(aid, ss). List.map_filter
                                        (early_exit (activity_avg_duration sessions)) ss)
                       (athlete_sessions sessions)))"

definition candidate_key :: "candidate \<Rightarrow> string \<times> string" where
  "candidate_key c = (si_athlete_id c, si_activity_id c)"

text \<open>Removing duplicates with the set \<open>seen\<close>.\<close>

fun unique_loop :: "(string \<times> string) set \<Rightarrow> candidate list \<Rightarrow> candidate list" where
  "unique_loop seen [] = []"
| "unique_loop seen (c # cs) =
     (if candidate_key c \<notin> seen then c # unique_loop (insert (candidate_key c) seen) cs
      else unique_loop seen cs)"

definition order_key :: "candidate \<Rightarrow> string \<times> string" where
  "order_key c = (si_date c, si_athlete_name c)"

text \<open>\<open>list.sort\<close> is stable, and so is \<open>sort_key\<close>; tuples and strings compare
  lexicographically.\<close>

definition unique_injured :: "candidate list \<Rightarrow> candidate list" where
  "unique_injured cands = sort_key order_key (unique_loop {} cands)"

definition analyze_injuries :: "file_entry list \<Rightarrow> candidate list" where
  "analyze_injuries files = unique_injured (injured_candidates files)"

section \<open>process\_injury\_dates.py\<close>

text \<open>A calendar date is its day number, so that \<open>timedelta(days=i)\<close> is the integer
  \<open>i\<close>. A row of the frame returned by \<open>create_date_ranges\<close>:\<close>

record date_range =
  dr_athlete_name :: string
  dr_date :: int
  dr_injury_date :: int
  days_until_injury :: int
  dr_risk_level :: string
  dr_injury_type :: string

text \<open>The inner loop, over \<open>range(lookback_days, -1, -1)\<close>.\<close>

definition lookback_row :: "int injury_row \<Rightarrow> int \<Rightarrow> date_range" where
  "lookback_row injury i =
     \<lparr> dr_athlete_name = i_athlete_name injury,
       dr_date = injury_date injury - i,
       dr_injury_date = injury_date injury,
       days_until_injury = i,
       dr_risk_level = (if i = 0 then ''injury_day''
                        else if i \<le> 3 then ''high_risk'' else ''moderate_risk''),
       dr_injury_type = get_or ''unknown'' (injury_type injury) \<rparr>"

definition create_date_ranges :: "int injury_row list \<Rightarrow> int \<Rightarrow> date_range list" where
  "create_date_ranges injury_df lookback_days =
     concat (map (\<lambda>injury. map (lookback_row injury) (rev [0..lookback_days])) injury_df)"

text \<open>The call with the default \<open>lookback_days=7\<close>.\<close>

definition create_date_ranges_default :: "int injury_row list \<Rightarrow> date_range list" where
  "create_date_ranges_default injury_df = create_date_ranges injury_df 7"

section \<open>Concrete rows used in the worked instances\<close>

definition features0 :: window_features where
  "features0 =
     \<lparr> window_minutes = 5, data_points = 100,
       avg_velocity = Some 2, max_velocity = Some 3, std_velocity = None,
       p90_velocity = Some 3,
       avg_acceleration = Some 1, max_acceleration = Some 2, std_acceleration = None,
       p90_acceleration = Some 2,
       cumulative_player_load = 40, avg_player_load_rate = 8,
       avg_metabolic_power = Some 7, max_metabolic_power = Some 9,
       p90_metabolic_power = Some 9,
       recent_avg_velocity = Some 2, recent_max_acceleration = Some 2,
       avg_smooth_load = Some 1 \<rparr>"

definition frow :: "string \<Rightarrow> string \<Rightarrow> feature_row" where
  "frow d n = window_features.extend features0
     (feature_row.fields d ''a1'' n ''act1'' 5)"

definition lrow :: "string \<Rightarrow> string \<Rightarrow> bool \<Rightarrow> labeled_row" where
  "lrow d n b = feature_row.extend (frow d n) (labeled_row.fields b (risk_level_of b))"

definition irow :: "string \<Rightarrow> 'd \<Rightarrow> 'd injury_row" where
  "irow n d = \<lparr> i_athlete_name = n, injury_date = d, injury_type = Some ''hamstring'',
                i_notes = None \<rparr>"

text \<open>Sessions: a sample at time \<open>t\<close> (seconds) with velocity \<open>vel\<close>; a session of
  100 samples that lasts one minute; a session with 99 samples at its start and 100 more
  ten minutes later.\<close>

definition smp :: "real \<Rightarrow> real \<Rightarrow> sample" where
  "smp t vel = \<lparr> ts = t, v = vel, a = 1, pl = t / 10, mp = 2, sl = 1 \<rparr>"

definition short_session :: "sample list" where
  "short_session = replicate 99 (smp 0 5) @ [smp 60 5]"

definition burst_session :: "sample list" where
  "burst_session = replicate 99 (smp 0 5) @ replicate 100 (smp 600 5)"

definition session_payload :: "sample list \<Rightarrow> payload" where
  "session_payload xs =
     Obj \<lparr> o_athlete_id = Some ''a1'', athlete_first_name = Some ''Ann'',
           athlete_last_name = Some ''Lee'', data = Some xs \<rparr>"

definition session_meta :: "sample list \<Rightarrow> window_features \<Rightarrow> feature_row" where
  "session_meta xs = add_metadata ''2025-01-09'' ''a1'' ''Ann Lee'' ''act1'' (total_duration xs)"

text \<open>A day of short drills: every session has data, the mean duration is under ten
  minutes, and one session lasts less than half of it.\<close>

definition lw :: "string \<Rightarrow> string \<Rightarrow> int \<Rightarrow> real \<Rightarrow> lw_session" where
  "lw d n pts dur = \<lparr> lw_date = d, lw_athlete_name = n, lw_athlete_id = ''id-'' @ n,
                       lw_data_points = pts, lw_duration_minutes = dur \<rparr>"

definition drill_day :: "lw_session list" where
  "drill_day = [lw ''2025-01-09'' ''Ann'' 5000 8, lw ''2025-01-09'' ''Bo'' 5400 9,
                lw ''2025-01-09'' ''Cy'' 1200 2, lw ''2025-01-10'' ''Ann'' 30000 50]"

definition det :: "string \<Rightarrow> string \<Rightarrow> detected" where
  "det n r = \<lparr> det_athlete_name = n, det_athlete_id = ''id-'' @ n, det_reason = r,
                det_data_points = 0, det_duration_minutes = 0 \<rparr>"

definition injuries_table :: "string injury_row list" where
  "injuries_table = [irow ''Ann Lee'' ''2025-01-09'', irow ''Unknown A'' ''2025-01-09'']"

definition detections :: "string \<rightharpoonup> detected list" where
  "detections = [''2025-01-09'' \<mapsto> [det ''Cy Poe'' ''NO DATA'']]"

text \<open>Two files of one activity: each has two samples, the first session lasts an hour,
  the second ten minutes.\<close>

definition session_file :: "string \<Rightarrow> nat \<Rightarrow> real \<Rightarrow> file_entry" where
  "session_file name sz secs =
     \<lparr> st_size = sz, fe_name = name, fe_path = ''data/'' @ name,
       fe_content = Some (session_payload [smp 0 5, smp secs 5]) \<rparr>"

definition activity_files :: "file_entry list" where
  "activity_files = [session_file ''2025-01-09_a1_act1.json'' 1500 3600,
                     session_file ''2025-01-09_a2_act1.json'' 1500 600]"

definition session_a :: "string \<Rightarrow> nat \<Rightarrow> real \<Rightarrow> session_info" where
  "session_a aid sz mins =
     \<lparr> si_date = ''2025-01-09'', si_athlete_id = aid, si_athlete_name = ''Ann Lee'',
       si_activity_id = ''act1'', file_size = sz, si_data_points = 2,
       duration_minutes = mins,
       file_path = ''data/2025-01-09_'' @ aid @ ''_act1.json'' \<rparr>"

text \<open>A day of full sessions of 60, 58, 55 and 20 minutes.\<close>

definition match_day :: "lw_session list" where
  "match_day = [lw ''2025-01-17'' ''Ann'' 36000 60, lw ''2025-01-17'' ''Bo'' 34800 58,
                lw ''2025-01-17'' ''Cy'' 33000 55, lw ''2025-01-17'' ''Di'' 12000 20]"

text \<open>The double that the literal \<open>0.1\<close> denotes, and three samples with that
  velocity; three samples with velocity 5.\<close>

definition tenth :: real where
  "tenth = 3602879701896397 / 36028797018963968"

definition tenth_session :: "sample list" where
  "tenth_session = [smp 0 tenth, smp 1 tenth, smp 2 tenth]"

definition five_session :: "sample list" where
  "five_session = [smp 0 5, smp 1 5, smp 2 5]"

section \<open>Properties of double-precision arithmetic\<close>

lemma round_half_even_int: "round_half_even (of_int n) = n"
  by (simp add: round_half_even_def)

lemma powr_powi: "(2::real) powr (of_int k) = 2 powi k"
  by (simp add: powr_real_of_int power_int_def power_one_over inverse_eq_divide)

lemma floor_log2_bracket:
  assumes "2 powi k \<le> x" "x < 2 powi (k + 1)"
  shows "\<lfloor>log 2 x\<rfloor> = k"
proof -
  have "0 < (2::real) powi k" by simp
  then have "0 < x" using assms(1) by linarith
  moreover have "2 powr (of_int k) \<le> x" "x < 2 powr (of_int k + 1)"
    using assms powr_powi [of k] powr_powi [of "k + 1"] by simp_all
  ultimately show ?thesis by (simp add: floor_log_eq_powr_iff)
qed

lemma fl64_bracket:
  assumes "2 powi k \<le> \<bar>x\<bar>" "\<bar>x\<bar> < 2 powi (k + 1)"
  shows "fl64 x = of_int (round_half_even (x / 2 powi (k - 52))) * 2 powi (k - 52)"
proof -
  have pos: "0 < (2::real) powi k" by simp
  have "x \<noteq> 0"
  proof
    assume "x = 0"
    with assms(1) have "(2::real) powi k \<le> 0" by simp
    with pos show False by linarith
  qed
  then show ?thesis
    by (simp add: fl64_def Let_def floor_log2_bracket [OF assms])
qed

lemma log2_bracket_exists:
  assumes "0 < x"
  shows "2 powi \<lfloor>log 2 x\<rfloor> \<le> x \<and> x < 2 powi (\<lfloor>log 2 x\<rfloor> + 1)"
  using floor_log_eq_powr_iff [of x 2 "\<lfloor>log 2 x\<rfloor>"] assms
    powr_powi [of "\<lfloor>log 2 x\<rfloor>"] powr_powi [of "\<lfloor>log 2 x\<rfloor> + 1"]
  by simp

lemma fl64_exact:
  assumes "\<bar>m\<bar> < 2 ^ 53"
  shows "fl64 (of_int m * 2 powi j) = of_int m * 2 powi j"
proof (cases "m = 0")
  case True
  then show ?thesis by (simp add: fl64_def)
next
  case False
  define x :: real where "x = of_int m * 2 powi j"
  define k where "k = \<lfloor>log 2 \<bar>x\<bar>\<rfloor>"
  have xpos: "0 < \<bar>x\<bar>" using False by (simp add: x_def)
  have lo: "2 powi k \<le> \<bar>x\<bar>" and hi: "\<bar>x\<bar> < 2 powi (k + 1)"
    using log2_bracket_exists [OF xpos] by (simp_all add: k_def)
  have "\<bar>x\<bar> = of_int \<bar>m\<bar> * 2 powi j" by (simp add: x_def abs_mult)
  also have "\<dots> < 2 ^ 53 * 2 powi j"
  proof -
    have "(of_int \<bar>m\<bar> :: real) < of_int (2 ^ 53)" using assms by (simp only: of_int_less_iff)
    then show ?thesis by simp
  qed
  also have "\<dots> = 2 powi (53 + j)" by (simp add: power_int_add)
  finally have "(2::real) powi k < 2 powi (53 + j)" using lo by linarith
  then have "k < 53 + j"
    using power_int_increasing [of "53 + j" k "2::real"] by (cases "k < 53 + j") auto
  then have e: "0 \<le> j - (k - 52)" by simp
  have "x / 2 powi (k - 52) = of_int m * 2 powi (j - (k - 52))"
    by (simp add: x_def power_int_diff)
  also have "\<dots> = of_int (m * 2 ^ nat (j - (k - 52)))"
    using e by (simp add: power_int_def)
  finally have "round_half_even (x / 2 powi (k - 52)) = m * 2 ^ nat (j - (k - 52))"
    by (simp only: round_half_even_int)
  then have "fl64 x = of_int (m * 2 ^ nat (j - (k - 52))) * 2 powi (k - 52)"
    by (simp only: fl64_bracket [OF lo hi])
  also have "\<dots> = of_int m * (2 powi (j - (k - 52)) * 2 powi (k - 52))"
    using e by (simp add: power_int_def)
  also have "2 powi (j - (k - 52)) * 2 powi (k - 52) = (2::real) powi j"
    by (simp add: power_int_add [symmetric])
  finally show ?thesis by (simp add: x_def)
qed

lemma fl64_int: "\<bar>m\<bar> < 2 ^ 53 \<Longrightarrow> fl64 (of_int m) = of_int m"
  using fl64_exact [of m 0] by simp


lemma fl64_zero [simp]: "fl64 0 = 0"
  by (simp add: fl64_def)

lemma fl64_numeral: "\<bar>numeral w :: int\<bar> < 2 ^ 53 \<Longrightarrow> fl64 (numeral w) = numeral w"
  using fl64_int [of "numeral w"] by simp

lemma fl64_one [simp]: "fl64 1 = 1"
  using fl64_int [of 1] by simp

lemma fl64_tenth: "fl64 (1 / 10) = tenth"
proof -
  have "fl64 (1 / 10) = of_int (round_half_even ((1 / 10) / 2 powi (- 4 - 52))) * 2 powi (- 4 - 52)"
    by (rule fl64_bracket) (simp_all add: power_int_minus)
  also have "round_half_even ((1 / 10) / 2 powi (- 4 - 52)) = 7205759403792794"
    by (simp add: round_half_even_def power_int_minus)
  finally show ?thesis by (simp add: tenth_def power_int_minus)
qed


lemma fl64_tenth_exact: "fl64 tenth = tenth"
  using fl64_exact [of 3602879701896397 "- 55"] by (simp add: tenth_def power_int_minus)

lemma fl64_two_tenths: "fl64 (tenth + tenth) = 3602879701896397 / 18014398509481984"
  using fl64_exact [of 3602879701896397 "- 54"] by (simp add: tenth_def power_int_minus)

lemma fl64_three_tenths:
  "fl64 (3602879701896397 / 18014398509481984 + tenth) = 1351079888211149 / 4503599627370496"
proof -
  let ?x = "3602879701896397 / 18014398509481984 + tenth"
  have "fl64 ?x = of_int (round_half_even (?x / 2 powi (- 2 - 52))) * 2 powi (- 2 - 52)"
    by (rule fl64_bracket) (simp_all add: tenth_def power_int_minus)
  also have "round_half_even (?x / 2 powi (- 2 - 52)) = 5404319552844596"
    by (simp add: round_half_even_def power_int_minus tenth_def)
  finally show ?thesis by (simp add: power_int_minus)
qed

lemma fl64_three_tenths_div_3:
  "fl64 (1351079888211149 / 4503599627370496 / 3) = 7205759403792795 / 72057594037927936"
proof -
  let ?x = "1351079888211149 / 4503599627370496 / 3 :: real"
  have "fl64 ?x = of_int (round_half_even (?x / 2 powi (- 4 - 52))) * 2 powi (- 4 - 52)"
    by (rule fl64_bracket) (simp_all add: power_int_minus)
  also have "round_half_even (?x / 2 powi (- 4 - 52)) = 7205759403792795"
    by (simp add: round_half_even_def power_int_minus)
  finally show ?thesis by (simp add: power_int_minus)
qed

lemma avg_three_tenths:
  "avg [tenth, tenth, tenth] = 7205759403792795 / 72057594037927936"
proof -
  have "fsum [tenth, tenth, tenth] = fl64 (fl64 (fl64 tenth + tenth) + tenth)"
    by (simp add: fsum_def fadd_def)
  also have "\<dots> = 1351079888211149 / 4503599627370496"
    by (simp only: fl64_tenth_exact fl64_two_tenths fl64_three_tenths)
  finally have sum: "fsum [tenth, tenth, tenth] = 1351079888211149 / 4503599627370496" .
  have "avg [tenth, tenth, tenth] = fl64 (fsum [tenth, tenth, tenth] / 3)"
    by (simp add: avg_def fdiv_def)
  then show ?thesis by (simp only: sum fl64_three_tenths_div_3)
qed

lemma fsum_constant_from:
  assumes "\<forall>k \<in> {1..j + m}. fl64 (real k * c) = real k * c"
  shows "fold (\<lambda>x s. fadd s x) (replicate m c) (real j * c) = real (j + m) * c"
  using assms
proof (induction m arbitrary: j)
  case 0
  then show ?case by simp
next
  case (Suc m)
  have "fadd (real j * c) c = fl64 (real (Suc j) * c)"
    by (simp add: fadd_def algebra_simps)
  also have "\<dots> = real (Suc j) * c"
    using Suc.prems by (simp del: of_nat_Suc)
  finally have step: "fadd (real j * c) c = real (Suc j) * c" .
  have "\<forall>k \<in> {1..Suc j + m}. fl64 (real k * c) = real k * c"
    using Suc.prems by simp
  from Suc.IH [OF this] show ?case
    by (simp add: step del: of_nat_Suc)
qed

lemma avg_constant:
  assumes "0 < n" "\<forall>k \<in> {1..n}. fl64 (real k * c) = real k * c"
  shows "avg (replicate n c) = c"
proof -
  have "fsum (replicate n c) = real n * c"
    using fsum_constant_from [of 0 n c] assms(2) by (simp add: fsum_def)
  moreover have "fl64 c = c"
    using assms by (auto dest: bspec [of _ _ 1])
  ultimately show ?thesis
    using assms(1) by (simp add: avg_def fdiv_def)
qed


section \<open>Properties of the string functions and of number formatting\<close>

lemma strip_Ann_Lee: "strip ''Ann Lee'' = ''Ann Lee''"
  by (simp add: strip_def whitespace_def)

lemma strip_trailing_nbsp: "strip (''Ann '' @ [CHR 0xC2, CHR 0xA0]) = ''Ann''"
  by (simp add: strip_def whitespace_def)

lemma fl64_19_3: "fl64 (19 / 3) = 7130699410003285 / 1125899906842624"
proof -
  let ?x = "19 / 3 :: real"
  have "fl64 ?x = of_int (round_half_even (?x / 2 powi (2 - 52))) * 2 powi (2 - 52)"
    by (rule fl64_bracket) simp_all
  also have "round_half_even (?x / 2 powi (2 - 52)) = 7130699410003285"
    by (simp add: round_half_even_def power_int_minus)
  finally show ?thesis by (simp add: power_int_minus)
qed

lemma fl64_7_20: "fl64 (7 / 20) = 3152519739159347 / 9007199254740992"
proof -
  let ?x = "7 / 20 :: real"
  have "fl64 ?x = of_int (round_half_even (?x / 2 powi (- 2 - 52))) * 2 powi (- 2 - 52)"
    by (rule fl64_bracket) (simp_all add: power_int_minus)
  also have "round_half_even (?x / 2 powi (- 2 - 52)) = 6305039478318694"
    by (simp add: round_half_even_def power_int_minus)
  finally show ?thesis by (simp add: power_int_minus)
qed

lemma str_nat_digit: "n < 10 \<Longrightarrow> str_nat n = [digit n]"
  by (simp add: str_nat.simps)

lemma str_nat_step: "\<not> n < 10 \<Longrightarrow> str_nat n = str_nat (n div 10) @ [digit (n mod 10)]"
  by (subst str_nat.simps) simp

lemma fmt1_below_tie: "fmt1 (21 / 60) = ''0.3''"
proof -
  have "round_half_even (\<bar>fl64 (7 / 20)\<bar> * 10) = 3" "\<not> fl64 (7 / 20) < 0"
    by (simp_all add: fl64_7_20 round_half_even_def)
  then show ?thesis
    by (simp add: fmt1_def Let_def str_nat_digit digit_def)
qed

lemma fmt1_10: "fmt1 10 = ''10.0''"
proof -
  have "round_half_even (\<bar>10\<bar> * 10) = 100"
    using round_half_even_int [of 100] by simp
  then show ?thesis
    by (simp add: fmt1_def fl64_numeral str_nat_digit str_nat_step digit_def)
qed

lemma fl64_193_4: "fl64 (193 / 4) = 193 / 4"
  using fl64_exact [of 193 "- 2"] by (simp add: power_int_minus)

lemma fmt1_48_25: "fmt1 (193 / 4) = ''48.2''"
proof -
  have "\<lfloor>965 / 2 :: real\<rfloor> = 482" by linarith
  then have "round_half_even (\<bar>193 / 4\<bar> * 10) = 482"
    by (simp add: round_half_even_def)
  then show ?thesis
    by (simp add: fmt1_def fl64_193_4 str_nat_digit str_nat_step digit_def)
qed

lemma fmt1_35: "fmt1 35 = ''35.0''"
proof -
  have "round_half_even (\<bar>35\<bar> * 10) = 350"
    using round_half_even_int [of 350] by simp
  then show ?thesis
    by (simp add: fmt1_def fl64_numeral str_nat_digit str_nat_step digit_def)
qed

lemma fmt1_20: "fmt1 20 = ''20.0''"
proof -
  have "round_half_even (\<bar>20\<bar> * 10) = 200"
    using round_half_even_int [of 200] by simp
  then show ?thesis
    by (simp add: fmt1_def fl64_numeral str_nat_digit str_nat_step digit_def)
qed

section \<open>Properties of create\_labeled\_dataset.py\<close>

lemma injury_lookup_fold:
  "fold (\<lambda>row lookup. insert (i_athlete_name row, injury_date row) lookup) xs S =
     S \<union> (\<lambda>row. (i_athlete_name row, injury_date row)) ` set xs"
  by (induction xs arbitrary: S) auto

lemma injury_lookup_set:
  "injury_lookup xs = (\<lambda>row. (i_athlete_name row, injury_date row)) ` set xs"
  by (simp add: injury_lookup_def injury_lookup_fold)

lemma label_row_injured: "injured (label_row S row) = ((athlete_name row, date row) \<in> S)"
  by (simp add: label_row_def feature_row.extend_def labeled_row.fields_def Let_def)

lemma label_row_risk:
  "risk_level (label_row S row) = risk_level_of ((athlete_name row, date row) \<in> S)"
  by (simp add: label_row_def feature_row.extend_def labeled_row.fields_def Let_def)

text \<open>
  C9. Joining feature rows to injury labels: the i-th feature row is labelled
  \<open>injured = True\<close> exactly when its (athlete_name, date) pair is the
  (athlete_name, injury_date) pair of some injury record; a row whose pair is absent gets
  \<open>injured = False\<close> and risk level \<open>normal\<close>, a row whose pair is present gets risk
  level \<open>injured\<close>. No row is added or dropped.
\<close>

theorem labeled_dataset_join:
  assumes "i < length features_df"
  shows "let row = features_df ! i;
             out = create_labeled_dataset features_df injuries_df ! i;
             present = (\<exists>inj \<in> set injuries_df.
                i_athlete_name inj = athlete_name row \<and> injury_date inj = date row)
         in length (create_labeled_dataset features_df injuries_df) = length features_df
            \<and> (injured out \<longleftrightarrow> present)
            \<and> (\<not> present \<longrightarrow> \<not> injured out \<and> risk_level out = ''normal'')
            \<and> (present \<longrightarrow> risk_level out = ''injured'')"
proof -
  define row where "row = features_df ! i"
  define present where "present \<longleftrightarrow> (\<exists>inj \<in> set injuries_df.
                i_athlete_name inj = athlete_name row \<and> injury_date inj = date row)"
  have mem: "((athlete_name row, date row) \<in> injury_lookup injuries_df) = present"
    unfolding present_def injury_lookup_set by force
  have out: "create_labeled_dataset features_df injuries_df ! i
               = label_row (injury_lookup injuries_df) row"
    using assms by (simp add: row_def create_labeled_dataset_def)
  have len: "length (create_labeled_dataset features_df injuries_df) = length features_df"
    by (simp add: create_labeled_dataset_def)
  have "(injured (label_row (injury_lookup injuries_df) row) \<longleftrightarrow> present)
        \<and> (\<not> present \<longrightarrow> \<not> injured (label_row (injury_lookup injuries_df) row)
              \<and> risk_level (label_row (injury_lookup injuries_df) row) = ''normal'')
        \<and> (present \<longrightarrow> risk_level (label_row (injury_lookup injuries_df) row) = ''injured'')"
    by (simp add: label_row_injured label_row_risk mem risk_level_of_def)
  then show ?thesis
    unfolding Let_def out len row_def [symmetric] present_def [symmetric] by simp
qed

theorem labeled_dataset_join_witness:
  "let features_df = [frow ''2025-01-09'' ''Ann Lee'', frow ''2025-01-09'' ''Bo Ray''];
       injuries_df = [irow ''Ann Lee'' ''2025-01-09''];
       out = create_labeled_dataset features_df injuries_df
   in (0::nat) < length features_df \<and> length out = 2
      \<and> injured (out ! 0) \<and> risk_level (out ! 0) = ''injured''
      \<and> \<not> injured (out ! 1) \<and> risk_level (out ! 1) = ''normal''"
  using labeled_dataset_join [of 0 "[frow ''2025-01-09'' ''Ann Lee'', frow ''2025-01-09'' ''Bo Ray'']"
          "[irow ''Ann Lee'' ''2025-01-09'']"]
        labeled_dataset_join [of 1 "[frow ''2025-01-09'' ''Ann Lee'', frow ''2025-01-09'' ''Bo Ray'']"
          "[irow ''Ann Lee'' ''2025-01-09'']"]
  by (simp add: Let_def frow_def irow_def window_features.extend_def feature_row.fields_def)

section \<open>Properties of train\_model.py\<close>

lemma set_boolean_index:
  "set (boolean_index xs m) = {(i, xs ! i) | i. i < length xs \<and> i < length m \<and> m ! i}"
proof -
  have "set (zip [0..<length xs] (zip xs m))
          = {(i, xs ! i, m ! i) | i. i < length xs \<and> i < length m}"
  proof -
    have "\<And>i. i < length xs \<Longrightarrow> i < length m \<Longrightarrow>
       \<exists>ia. i = [0..<length xs] ! ia \<and> (xs ! i, m ! i) = zip xs m ! ia
           \<and> ia < length xs \<and> ia < length m"
      subgoal for i by (rule exI [of _ i]) simp
      done
    then show ?thesis by (auto simp: set_zip)
  qed
  then show ?thesis
    unfolding boolean_index_def by (auto simp: image_iff)
qed

lemma labels_boolean_index:
  "labels (boolean_index xs m) = {i. i < length xs \<and> i < length m \<and> m ! i}"
  unfolding labels_def set_boolean_index by force

text \<open>
  C8. Temporal train/test split: the row with index label i is in the train partition
  exactly when its date is the training date 2025-01-09, in the test partition exactly
  when its date is the test date 2025-01-17 (features and labels alike); no row is in both
  partitions, and a row with neither date is in neither.
\<close>

theorem temporal_split_partition:
  assumes "i < length df"
  shows "let s = temporal_split df;
             in_train = (i \<in> labels (X_train s));
             in_test = (i \<in> labels (X_test s))
         in (in_train \<longleftrightarrow> date (df ! i) = ''2025-01-09'')
          \<and> (in_test \<longleftrightarrow> date (df ! i) = ''2025-01-17'')
          \<and> (i \<in> labels (y_train s) \<longleftrightarrow> in_train)
          \<and> (i \<in> labels (y_test s) \<longleftrightarrow> in_test)
          \<and> \<not> (in_train \<and> in_test)
          \<and> (date (df ! i) \<noteq> ''2025-01-09'' \<and> date (df ! i) \<noteq> ''2025-01-17''
                \<longrightarrow> \<not> in_train \<and> \<not> in_test)"
  using assms
  by (auto simp: Let_def temporal_split_def labels_boolean_index train_mask_def test_mask_def)

lemma date_lrow: "date (lrow d n b) = d"
  by (simp add: lrow_def frow_def feature_row.extend_def window_features.extend_def
          feature_row.fields_def labeled_row.fields_def)

theorem temporal_split_partition_witness:
  "let df = [lrow ''2025-01-09'' ''Ann Lee'' True, lrow ''2025-01-17'' ''Bo Ray'' False,
             lrow ''2025-01-12'' ''Cy Poe'' False];
       s = temporal_split df
   in (2::nat) < length df
      \<and> 0 \<in> labels (X_train s) \<and> 0 \<notin> labels (X_test s)
      \<and> 1 \<notin> labels (X_train s) \<and> 1 \<in> labels (X_test s)
      \<and> 2 \<notin> labels (X_train s) \<and> 2 \<notin> labels (X_test s)"
  using temporal_split_partition [of 0 "[lrow ''2025-01-09'' ''Ann Lee'' True,
             lrow ''2025-01-17'' ''Bo Ray'' False, lrow ''2025-01-12'' ''Cy Poe'' False]"]
    temporal_split_partition [of 1 "[lrow ''2025-01-09'' ''Ann Lee'' True,
             lrow ''2025-01-17'' ''Bo Ray'' False, lrow ''2025-01-12'' ''Cy Poe'' False]"]
    temporal_split_partition [of 2 "[lrow ''2025-01-09'' ''Ann Lee'' True,
             lrow ''2025-01-17'' ''Bo Ray'' False, lrow ''2025-01-12'' ''Cy Poe'' False]"]
  by (simp add: Let_def date_lrow)

section \<open>Properties of rolling\_window\_features.py\<close>

lemma fold_max_Max: "fold max (tl xs) (hd xs) = Max (set xs)" if "xs \<noteq> []" for xs :: "real list"
  using that by (cases xs) (simp_all add: Max.set_eq_fold [symmetric])

lemma minutes_nonempty: "df \<noteq> [] \<Longrightarrow> minutes_from_start df \<noteq> []"
  by (simp add: minutes_from_start_def)

lemma total_duration_Max:
  "df \<noteq> [] \<Longrightarrow> total_duration df = Max (set (minutes_from_start df))"
  by (simp add: total_duration_def fold_max_Max minutes_nonempty)

lemma window_end_idx_le: "window_end_idx df w \<le> length df"
  unfolding window_end_idx_def
  by (metis length_filter_le length_map minutes_from_start_def)

lemma window_end_idx_total:
  assumes "df \<noteq> []" "total_duration df \<le> w"
  shows "window_end_idx df w = length df"
proof -
  have "\<forall>m \<in> set (minutes_from_start df). m \<le> w"
    using assms by (auto simp: total_duration_Max intro: order_trans [OF Max_ge])
  then have "filter (\<lambda>m. m \<le> w) (minutes_from_start df) = minutes_from_start df"
    by (simp add: filter_id_conv)
  then show ?thesis by (simp add: window_end_idx_def minutes_from_start_def)
qed

lemma calculate_window_features_Some:
  assumes "0 < e" "e \<le> length df"
  shows "\<exists>f. calculate_window_features df 0 e w = Some f \<and> window_minutes f = w
             \<and> data_points f = e"
  using assms by (auto simp: calculate_window_features_def iloc_def Let_def)

lemma window_minutes_add_metadata [simp]:
  "window_minutes (add_metadata d aid aname act dur f) = window_minutes f"
  by (simp add: add_metadata_def window_features.extend_def)

lemma data_points_add_metadata [simp]:
  "data_points (add_metadata d aid aname act dur f) = data_points f"
  by (simp add: add_metadata_def window_features.extend_def)

lemma truncate_add_metadata [simp]:
  "window_features.truncate (add_metadata d aid aname act dur f) = f"
  by (simp add: add_metadata_def window_features.extend_def window_features.truncate_def)

lemma windows_loop_minutes:
  assumes "\<And>f. window_minutes (meta f) = window_minutes f"
  shows "map window_minutes (windows_loop df meta ws)
         = filter (\<lambda>w. 100 \<le> window_end_idx df w) (takeWhile (\<lambda>w. w \<le> total_duration df) ws)"
proof (induction ws)
  case Nil
  then show ?case by simp
next
  case (Cons w ws)
  show ?case
  proof (cases "100 \<le> window_end_idx df w")
    case True
    then obtain f where "calculate_window_features df 0 (window_end_idx df w) w = Some f"
      "window_minutes f = w"
      using calculate_window_features_Some [of "window_end_idx df w" df w] window_end_idx_le [of df w]
      by auto
    then show ?thesis using True Cons assms by (simp add: not_less)
  next
    case False
    then show ?thesis using Cons by (simp add: not_less)
  qed
qed

lemma windows_loop_append:
  assumes "\<forall>w \<in> set pre. w \<le> total_duration df"
  shows "windows_loop df meta (pre @ rest) = windows_loop df meta pre @ windows_loop df meta rest"
  using assms by (induction pre) (auto split: option.splits)

lemma window_end_idx_filter:
  "window_end_idx df w = length (filter (\<lambda>s. (ts s - ts (hd df)) / 60 \<le> w) df)"
  by (simp add: window_end_idx_def minutes_from_start_def filter_map o_def)

lemma create_rolling_features_rows:
  assumes "load_session_data p = Inr (Some (df, aid, aname))"
      and "create_rolling_features filename p ws = Inr (Some rows)"
  shows "\<exists>d act. rows = windows_loop df (add_metadata d aid aname act (total_duration df)) ws"
  using assms
  by (auto simp: create_rolling_features_def split: list.splits)

text \<open>
  C3. For every sample sequence and cutoff: when fewer than 100 samples have elapsed
  minutes at most the cutoff, no feature vector is produced for that cutoff, whatever the
  list of window intervals.
\<close>

theorem window_below_100_samples_none:
  assumes "load_session_data p = Inr (Some (df, aid, aname))"
      and "length (filter (\<lambda>s. (ts s - ts (hd df)) / 60 \<le> cutoff) df) < 100"
      and "create_rolling_features filename p window_intervals = Inr (Some rows)"
  shows "cutoff \<notin> window_minutes ` set rows"
proof -
  obtain d act where
    rows: "rows = windows_loop df (add_metadata d aid aname act (total_duration df)) window_intervals"
    using create_rolling_features_rows [OF assms(1,3)] by blast
  have "set (map window_minutes rows) \<subseteq> {w. 100 \<le> window_end_idx df w}"
    unfolding rows by (subst windows_loop_minutes) auto
  moreover have "\<not> 100 \<le> window_end_idx df cutoff"
    using assms(2) by (simp add: window_end_idx_filter)
  ultimately show ?thesis by auto
qed

lemma hd_replicate_append: "0 < n \<Longrightarrow> hd (replicate n x @ ys) = x"
  by (cases n) simp_all

lemma load_session_payload:
  "xs \<noteq> [] \<Longrightarrow> load_session_data (session_payload xs) = Inr (Some (xs, ''a1'', ''Ann Lee''))"
  by (simp add: load_session_data_def session_payload_def get_or_def strip_Ann_Lee)

lemma split_filename:
  "split_on (CHR ''_'') (remove_sub ''.json'' ''2025-01-09_a1_act1.json'')
     = [''2025-01-09'', ''a1'', ''act1'']"
  by simp

lemma create_session_payload:
  "xs \<noteq> [] \<Longrightarrow> create_rolling_features ''2025-01-09_a1_act1.json'' (session_payload xs) ws
     = Inr (Some (windows_loop xs (session_meta xs) ws))"
  by (simp add: create_rolling_features_def load_session_payload split_filename session_meta_def
       del: split_on.simps remove_sub.simps)

lemma burst_minutes:
  "minutes_from_start burst_session = replicate 99 0 @ replicate 100 10"
  by (simp add: minutes_from_start_def burst_session_def hd_replicate_append smp_def)

lemma burst_total: "total_duration burst_session = 10"
proof -
  have "burst_session \<noteq> []" by (simp add: burst_session_def)
  then show ?thesis by (simp add: total_duration_Max burst_minutes)
qed

lemma burst_end_idx: "window_end_idx burst_session 5 = 99" "window_end_idx burst_session 10 = 199"
  by (simp_all add: window_end_idx_def burst_minutes)

theorem window_below_100_samples_none_witness:
  "load_session_data (session_payload burst_session)
     = Inr (Some (burst_session, ''a1'', ''Ann Lee''))
   \<and> length (filter (\<lambda>s. (ts s - ts (hd burst_session)) / 60 \<le> 5) burst_session) = 99
   \<and> create_rolling_features ''2025-01-09_a1_act1.json'' (session_payload burst_session) [5, 10]
       = Inr (Some (windows_loop burst_session (session_meta burst_session) [5, 10]))
   \<and> 5 \<notin> window_minutes ` set (windows_loop burst_session (session_meta burst_session) [5, 10])
   \<and> map window_minutes (windows_loop burst_session (session_meta burst_session) [5, 10]) = [10]"
proof -
  have ne: "burst_session \<noteq> []" by (simp add: burst_session_def)
  have cnt: "length (filter (\<lambda>s. (ts s - ts (hd burst_session)) / 60 \<le> 5) burst_session) = 99"
    using burst_end_idx(1) by (simp add: window_end_idx_filter)
  have m: "map window_minutes (windows_loop burst_session (session_meta burst_session) [5, 10]) = [10]"
    by (subst windows_loop_minutes) (simp_all add: session_meta_def burst_total burst_end_idx)
  show ?thesis
    using window_below_100_samples_none [OF load_session_payload [OF ne] _ create_session_payload [OF ne],
        of 5 "[5, 10]"] cnt m
    by (simp add: load_session_payload [OF ne] create_session_payload [OF ne])
qed

lemma load_session_data_nonempty:
  "load_session_data p = Inr (Some (df, aid, aname)) \<Longrightarrow> df \<noteq> []"
  by (auto simp: load_session_data_def Let_def split: option.splits if_splits payload.splits list.splits)

lemma windows_loop_at_total:
  assumes "df \<noteq> []" "100 \<le> length df" "w = total_duration df"
      and "calculate_window_features df 0 (length df) w = Some f"
  shows "windows_loop df meta (w # post) = meta f # windows_loop df meta post"
  using assms by (simp add: window_end_idx_total)

lemma short_minutes: "minutes_from_start short_session = replicate 99 0 @ [1]"
  by (simp add: minutes_from_start_def short_session_def hd_replicate_append smp_def)

lemma short_total: "total_duration short_session = 1"
proof -
  have "short_session \<noteq> []" by (simp add: short_session_def)
  then show ?thesis by (simp add: total_duration_Max short_minutes)
qed

text \<open>
  C1, as stated, fails: a session of 100 samples that lasts one minute, asked for the
  5-minute window, gets no feature row at all, although all 100 samples lie within the
  cutoff. The loop leaves at the first interval beyond the session's duration.
\<close>

theorem cutoff_beyond_duration_counterexample:
  "total_duration short_session = 1
   \<and> window_end_idx short_session 5 = length short_session
   \<and> create_rolling_features ''2025-01-09_a1_act1.json'' (session_payload short_session) [5]
       = Inr (Some [])"
proof -
  have ne: "short_session \<noteq> []" by (simp add: short_session_def)
  have "window_end_idx short_session 5 = length short_session"
    by (simp add: window_end_idx_def short_minutes) (simp add: short_session_def)
  then show ?thesis
    by (simp add: short_total create_session_payload [OF ne])
qed

text \<open>
  C1, amended. A window cutoff exceeding the session's total duration (the largest elapsed
  minute) yields no feature row, and every row produced belongs to a cutoff within the
  duration. A cutoff equal to the total duration that the loop reaches (no earlier
  interval exceeds the duration), for a session of at least 100 samples, yields a feature
  row computed over the entire sample sequence.
\<close>

theorem cutoff_beyond_duration_breaks:
  assumes "load_session_data p = Inr (Some (df, aid, aname))"
      and "create_rolling_features filename p (pre @ cutoff # post) = Inr (Some rows)"
  shows "(total_duration df < cutoff \<longrightarrow> cutoff \<notin> window_minutes ` set rows)
       \<and> (\<forall>f \<in> set rows. window_minutes f \<le> total_duration df)
       \<and> ((\<forall>w \<in> set pre. w \<le> total_duration df) \<and> cutoff = total_duration df
            \<and> 100 \<le> length df
          \<longrightarrow> (\<exists>f \<in> set rows. window_minutes f = cutoff \<and> data_points f = length df
                 \<and> calculate_window_features df 0 (length df) cutoff
                     = Some (window_features.truncate f)))"
proof -
  obtain d act where
    rows: "rows = windows_loop df (add_metadata d aid aname act (total_duration df))
                    (pre @ cutoff # post)"
    using create_rolling_features_rows [OF assms] by blast
  let ?meta = "add_metadata d aid aname act (total_duration df)"
  have ne: "df \<noteq> []" by (rule load_session_data_nonempty [OF assms(1)])
  have "set (map window_minutes rows) \<subseteq> {w. w \<le> total_duration df}"
    unfolding rows by (subst windows_loop_minutes) (auto dest: set_takeWhileD)
  then have all: "\<forall>f \<in> set rows. window_minutes f \<le> total_duration df" by auto
  have at: "\<exists>f \<in> set rows. window_minutes f = cutoff \<and> data_points f = length df
                 \<and> calculate_window_features df 0 (length df) cutoff
                     = Some (window_features.truncate f)"
    if pre: "\<forall>w \<in> set pre. w \<le> total_duration df" and c: "cutoff = total_duration df"
      and len: "100 \<le> length df"
  proof -
    obtain f where f: "calculate_window_features df 0 (length df) cutoff = Some f"
      "window_minutes f = cutoff" "data_points f = length df"
      using calculate_window_features_Some [of "length df" df cutoff] len ne by auto
    have "rows = windows_loop df ?meta pre @ ?meta f # windows_loop df ?meta post"
      unfolding rows windows_loop_append [OF pre]
      by (simp only: windows_loop_at_total [OF ne len c f(1)])
    then have "?meta f \<in> set rows" by simp
    then show ?thesis using f by (intro bexI [of _ "?meta f"]) simp_all
  qed
  show ?thesis using all at by auto
qed

theorem cutoff_beyond_duration_breaks_witness:
  "load_session_data (session_payload short_session)
     = Inr (Some (short_session, ''a1'', ''Ann Lee''))
   \<and> create_rolling_features ''2025-01-09_a1_act1.json'' (session_payload short_session) [1, 5]
       = Inr (Some (windows_loop short_session (session_meta short_session) [1, 5]))
   \<and> total_duration short_session = 1 \<and> length short_session = 100
   \<and> 5 \<notin> window_minutes ` set (windows_loop short_session (session_meta short_session) [1, 5])
   \<and> (\<exists>f \<in> set (windows_loop short_session (session_meta short_session) [1, 5]).
         window_minutes f = 1 \<and> data_points f = 100
         \<and> calculate_window_features short_session 0 100 1 = Some (window_features.truncate f))"
proof -
  have ne: "short_session \<noteq> []" by (simp add: short_session_def)
  have len: "length short_session = 100" by (simp add: short_session_def)
  note l = load_session_payload [OF ne]
  note c = create_session_payload [OF ne]
  show ?thesis
    using cutoff_beyond_duration_breaks [OF l c [of "[1] @ 5 # []"]]
      cutoff_beyond_duration_breaks [OF l c [of "[] @ 1 # [5]"]]
    by (simp add: l c short_total len del: windows_loop.simps)
qed

lemma constant_list: "(\<forall>x \<in> set xs. x = c) \<Longrightarrow> xs = replicate (length xs) c"
  by (induction xs) auto

lemma mean_replicate:
  "0 < n \<Longrightarrow> \<forall>k \<in> {1..n}. fl64 (real k * c) = real k * c \<Longrightarrow> mean (replicate n c) = Some c"
  by (simp add: mean_def avg_constant)

lemma fold_max_constant: "(\<forall>x \<in> set xs. x = c) \<Longrightarrow> fold max xs c = (c::real)"
  by (induction xs) simp_all

lemma maximum_replicate: "0 < n \<Longrightarrow> maximum (replicate n c) = Some c"
  by (cases n) (simp_all add: maximum_def fold_max_constant del: fold_replicate)

lemma sort_replicate: "sort (replicate n c) = replicate n (c::real)"
  by (rule sort_key_id_if_sorted) (simp add: sorted_replicate)

lemma quantile_replicate:
  assumes "0 < n" "0 \<le> q" "q \<le> 1"
  shows "quantile q (replicate n c) = Some c"
proof -
  have "real (n - 1) * q \<le> real (n - 1)"
    using assms by (simp add: mult_left_le)
  then have "\<lfloor>real (n - 1) * q\<rfloor> \<le> int (n - 1)" by linarith
  then have lo: "nat \<lfloor>real (n - 1) * q\<rfloor> < n" using assms(1) by linarith
  then show ?thesis
    using assms(1) by (simp add: quantile_def Let_def sort_replicate)
qed

lemma std_single: "length xs = 1 \<Longrightarrow> std xs = None"
  by (simp add: std_def)

lemma tenth_window: "iloc tenth_session 0 3 = tenth_session"
  by (simp add: iloc_def tenth_session_def)

text \<open>
  C6, as stated, fails for the mean: in a window of three samples whose velocity is the
  double 0.1, the mean computed in double precision is the next double above 0.1 (printed
  0.10000000000000002), because the sum 0.1 + 0.1 + 0.1 is rounded up.
\<close>

theorem constant_mean_counterexample:
  "map v (iloc tenth_session 0 3) = [tenth, tenth, tenth]
   \<and> tenth = 7205759403792794 / 72057594037927936
   \<and> map_option avg_velocity (calculate_window_features tenth_session 0 3 5)
       = Some (Some (7205759403792795 / 72057594037927936))
   \<and> map_option avg_velocity (calculate_window_features tenth_session 0 3 5)
       \<noteq> Some (Some tenth)"
proof -
  have vs: "map v tenth_session = [tenth, tenth, tenth]"
    by (simp add: tenth_session_def smp_def)
  have ne: "tenth_session \<noteq> []" by (simp add: tenth_session_def)
  have "map_option avg_velocity (calculate_window_features tenth_session 0 3 5)
          = Some (mean (map v tenth_session))"
    using ne by (simp add: calculate_window_features_def Let_def tenth_window)
  also have "mean (map v tenth_session) = Some (7205759403792795 / 72057594037927936)"
    unfolding vs by (simp only: mean_def avg_three_tenths) simp
  finally have eq: "map_option avg_velocity (calculate_window_features tenth_session 0 3 5)
          = Some (Some (7205759403792795 / 72057594037927936))" .
  have t: "tenth = 7205759403792794 / 72057594037927936"
    by (simp add: tenth_def)
  have "Some (Some (7205759403792795 / 72057594037927936 :: real)) \<noteq> Some (Some tenth)"
    by (simp add: tenth_def)
  then show ?thesis
    unfolding eq tenth_window vs using t by simp
qed

text \<open>
  C6, amended. In a window whose velocity values all equal a constant c, the maximum and
  the 90th percentile of velocity are c, and the mean is c whenever every multiple k * c,
  for k from 1 to the number of samples in the window, is a double (as for c = 5.0). In a
  window of exactly one sample the standard deviation is a missing value, not zero.
\<close>

theorem constant_window_statistics:
  assumes "calculate_window_features df start_idx end_idx wmin = Some f"
  shows "((\<forall>x \<in> set (iloc df start_idx end_idx). v x = c)
            \<longrightarrow> max_velocity f = Some c \<and> p90_velocity f = Some c
              \<and> ((\<forall>k \<in> {1..length (iloc df start_idx end_idx)}.
                      fl64 (real k * c) = real k * c)
                   \<longrightarrow> avg_velocity f = Some c))
       \<and> (length (iloc df start_idx end_idx) = 1
            \<longrightarrow> std_velocity f = None \<and> std_velocity f \<noteq> Some 0
              \<and> std_acceleration f = None)"
proof -
  let ?w = "iloc df start_idx end_idx"
  have ne: "0 < length ?w"
    using assms by (auto simp: calculate_window_features_def Let_def split: if_splits)
  have f: "avg_velocity f = mean (map v ?w)" "max_velocity f = maximum (map v ?w)"
    "p90_velocity f = quantile (9 / 10) (map v ?w)" "std_velocity f = std (map v ?w)"
    "std_acceleration f = std (map a ?w)"
    using assms by (auto simp: calculate_window_features_def Let_def split: if_splits)
  have "map v ?w = replicate (length ?w) c" if "\<forall>x \<in> set ?w. v x = c"
    using constant_list [of "map v ?w" c] that by simp
  then show ?thesis
    using ne by (simp add: f mean_replicate maximum_replicate quantile_replicate std_single)
qed

lemma small_multiples_of_five:
  "\<forall>k \<in> {1..3}. fl64 (real k * 5) = real k * 5"
proof
  fix k :: nat assume "k \<in> {1..3}"
  then have "\<bar>int k * 5\<bar> < 2 ^ 53" by simp
  from fl64_int [OF this] show "fl64 (real k * 5) = real k * 5" by simp
qed

theorem constant_window_statistics_witness:
  "calculate_window_features five_session 0 3 5 \<noteq> None
   \<and> map v (iloc five_session 0 3) = [5, 5, 5]
   \<and> avg_velocity (the (calculate_window_features five_session 0 3 5)) = Some 5
   \<and> max_velocity (the (calculate_window_features five_session 0 3 5)) = Some 5
   \<and> p90_velocity (the (calculate_window_features five_session 0 3 5)) = Some 5
   \<and> length (iloc five_session 0 1) = 1
   \<and> calculate_window_features five_session 0 1 5 \<noteq> None
   \<and> std_velocity (the (calculate_window_features five_session 0 1 5)) = None"
proof -
  have i3: "iloc five_session 0 3 = five_session"
    by (simp add: iloc_def five_session_def)
  have i1: "iloc five_session 0 1 = [smp 0 5]"
    by (simp add: iloc_def five_session_def)
  have len: "length five_session = 3" by (simp add: five_session_def)
  have vs: "map v five_session = [5, 5, 5]" by (simp add: five_session_def smp_def)
  obtain f where f: "calculate_window_features five_session 0 3 5 = Some f"
    by (cases "calculate_window_features five_session 0 3 5")
       (simp_all add: calculate_window_features_def iloc_def Let_def five_session_def)
  obtain g where g: "calculate_window_features five_session 0 1 5 = Some g"
    by (cases "calculate_window_features five_session 0 1 5")
       (simp_all add: calculate_window_features_def iloc_def Let_def five_session_def)
  have "avg_velocity f = Some 5 \<and> max_velocity f = Some 5 \<and> p90_velocity f = Some 5"
    using constant_window_statistics [OF f, of 5] small_multiples_of_five
    unfolding i3 len by (simp add: five_session_def smp_def)
  moreover have "std_velocity g = None"
    using constant_window_statistics [OF g, of 5] unfolding i1 by simp
  ultimately show ?thesis
    unfolding f g i3 i1 vs by simp
qed

section \<open>Properties of auto\_detect\_injuries.py\<close>

lemma detect_session_reason:
  assumes "detect_session avg_duration session = Some d" "avg_duration \<le> 10"
  shows "det_reason d = ''NO DATA'' \<or> det_reason d = ''MINIMAL DATA''"
  using assms by (auto simp: detect_session_def Let_def split: if_splits)

text \<open>
  C2. On a day whose sessions have a mean duration of at most 10 minutes, the per-day
  heuristic emits no EARLY EXIT flag, whatever the duration of a session: every detection
  of that day is NO DATA or MINIMAL DATA.
\<close>

theorem no_early_exit_on_short_days:
  assumes "avg (map lw_duration_minutes (date_sessions df target_date)) \<le> 10"
  shows "\<forall>d \<in> set (detect_injuries_on_date df target_date).
           \<not> is_early_exit (det_reason d)
           \<and> (det_reason d = ''NO DATA'' \<or> det_reason d = ''MINIMAL DATA'')"
proof
  fix d assume "d \<in> set (detect_injuries_on_date df target_date)"
  then obtain s where
    "detect_session (avg (map lw_duration_minutes (date_sessions df target_date))) s = Some d"
    by (auto simp: detect_injuries_on_date_def Let_def List.map_filter_def split: if_splits)
  from detect_session_reason [OF this assms]
  show "\<not> is_early_exit (det_reason d)
           \<and> (det_reason d = ''NO DATA'' \<or> det_reason d = ''MINIMAL DATA'')"
    by (auto simp: is_early_exit_def)
qed

lemma drill_sessions:
  "date_sessions drill_day ''2025-01-09''
     = [lw ''2025-01-09'' ''Ann'' 5000 8, lw ''2025-01-09'' ''Bo'' 5400 9,
        lw ''2025-01-09'' ''Cy'' 1200 2]"
  by (simp add: date_sessions_def drill_day_def lw_def)

lemma fsum_8_9_2: "fsum [8, 9, 2] = 19"
  by (simp add: fsum_def fadd_def fl64_numeral)

lemma drill_avg:
  "avg (map lw_duration_minutes (date_sessions drill_day ''2025-01-09''))
     = 7130699410003285 / 1125899906842624"
  unfolding drill_sessions by (simp add: avg_def fdiv_def lw_def fsum_8_9_2 fl64_19_3)

theorem no_early_exit_on_short_days_witness:
  "avg (map lw_duration_minutes (date_sessions drill_day ''2025-01-09''))
     = 7130699410003285 / 1125899906842624
   \<and> lw_duration_minutes (date_sessions drill_day ''2025-01-09'' ! 2) = 2
   \<and> detect_injuries_on_date drill_day ''2025-01-09'' = []"
proof -
  have "detect_injuries_on_date drill_day ''2025-01-09'' = []"
    unfolding detect_injuries_on_date_def Let_def drill_avg
    unfolding drill_sessions
    by (simp add: List.map_filter_def detect_session_def lw_def)
  then show ?thesis
    using no_early_exit_on_short_days [of drill_day "''2025-01-09''"]
    by (simp add: drill_avg) (simp add: drill_sessions lw_def)
qed

lemma length_assign_detected [simp]: "length (assign_detected tbl idx n r) = length tbl"
  by (simp add: assign_detected_def)

lemma nth_assign_detected_other [simp]: "j \<noteq> idx \<Longrightarrow> assign_detected tbl idx n r ! j = tbl ! j"
  by (simp add: assign_detected_def)

lemma update_step_length:
  "length (fst (update_step det_map ir st)) = length (fst st)"
  by (cases ir; cases st) (simp add: update_step_def Let_def)

lemma update_step_frame:
  assumes "j \<noteq> fst ir \<or> \<not> contains ''Unknown'' (i_athlete_name (snd ir))"
  shows "fst (update_step det_map ir st) ! j = fst st ! j"
  using assms by (cases ir; cases st) (auto simp: update_step_def Let_def)

lemma update_fold_frame:
  assumes "\<forall>ir \<in> set irs. fst ir = j \<longrightarrow> \<not> contains ''Unknown'' (i_athlete_name (snd ir))"
  shows "fst (fold (update_step det_map) irs st) ! j = fst st ! j
       \<and> length (fst (fold (update_step det_map) irs st)) = length (fst st)"
  using assms
proof (induction irs arbitrary: st)
  case Nil
  then show ?case by simp
next
  case (Cons ir irs)
  then have "fst (update_step det_map ir st) ! j = fst st ! j"
    by (intro update_step_frame) auto
  with Cons show ?case by (simp add: update_step_length)
qed

text \<open>
  C10. Updating the injury-dates table changes only rows whose current athlete name
  contains \<open>Unknown\<close>: every other row is returned as it was, its athlete name and
  its notes in particular, and the table keeps its length.
\<close>

theorem update_leaves_named_rows:
  assumes "i < length df_injuries"
      and "\<not> contains ''Unknown'' (i_athlete_name (df_injuries ! i))"
  shows "length (update_injury_dates_csv df_injuries detected_injuries) = length df_injuries
       \<and> update_injury_dates_csv df_injuries detected_injuries ! i = df_injuries ! i
       \<and> i_athlete_name (update_injury_dates_csv df_injuries detected_injuries ! i)
           = i_athlete_name (df_injuries ! i)
       \<and> i_notes (update_injury_dates_csv df_injuries detected_injuries ! i)
           = i_notes (df_injuries ! i)"
proof -
  have "\<forall>ir \<in> set (zip [0..<length df_injuries] df_injuries).
          fst ir = i \<longrightarrow> \<not> contains ''Unknown'' (i_athlete_name (snd ir))"
    using assms by (auto simp: set_zip)
  from update_fold_frame [OF this, of detected_injuries "(df_injuries, 0)"]
  show ?thesis by (simp add: update_injury_dates_csv_def)
qed

lemma update_injuries_table:
  "update_injury_dates_csv injuries_table detections
     = [irow ''Ann Lee'' ''2025-01-09'',
        (irow ''Cy Poe'' ''2025-01-09'') \<lparr> i_notes := Some ''NO DATA'' \<rparr>]"
  by (simp add: update_injury_dates_csv_def injuries_table_def detections_def update_step_def
        irow_def det_def assign_detected_def upt_rec)

theorem update_leaves_named_rows_witness:
  "(0::nat) < length injuries_table
   \<and> \<not> contains ''Unknown'' (i_athlete_name (injuries_table ! 0))
   \<and> update_injury_dates_csv injuries_table detections ! 0 = irow ''Ann Lee'' ''2025-01-09''
   \<and> i_athlete_name (update_injury_dates_csv injuries_table detections ! 1) = ''Cy Poe''"
proof -
  have h: "(0::nat) < length injuries_table"
    "\<not> contains ''Unknown'' (i_athlete_name (injuries_table ! 0))"
    by (simp_all add: injuries_table_def irow_def)
  have "injuries_table ! 0 = irow ''Ann Lee'' ''2025-01-09''"
    by (simp add: injuries_table_def)
  then show ?thesis
    using update_leaves_named_rows [OF h, of detections] h
    by (simp add: update_injuries_table irow_def)
qed

section \<open>Properties of process\_injury\_dates.py\<close>

lemma lookback_offsets: "rev [0..7] = [7, 6, 5, 4, 3, 2, 1, 0::int]"
  by (simp add: upto_rec1)

text \<open>
  C7. With the default lookback of 7 days, every injury record expands into exactly eight
  rows, one per day offset 7 down to 0 before the injury date, each with the record's
  athlete name; the risk level is \<open>moderate_risk\<close> at offsets 7 to 4, \<open>high_risk\<close> at
  offsets 3 to 1 and \<open>injury_day\<close> at offset 0.
\<close>

theorem lookback_expansion_default:
  "create_date_ranges_default injury_df =
     concat (map (\<lambda>injury.
        map (\<lambda>(i, level).
               \<lparr> dr_athlete_name = i_athlete_name injury,
                 dr_date = injury_date injury - i,
                 dr_injury_date = injury_date injury,
                 days_until_injury = i,
                 dr_risk_level = level,
                 dr_injury_type = get_or ''unknown'' (injury_type injury) \<rparr>)
            [(7, ''moderate_risk''), (6, ''moderate_risk''), (5, ''moderate_risk''),
             (4, ''moderate_risk''), (3, ''high_risk''), (2, ''high_risk''),
             (1, ''high_risk''), (0, ''injury_day'')]) injury_df)"
  by (simp add: create_date_ranges_default_def create_date_ranges_def lookback_offsets
        lookback_row_def)

section \<open>Properties of detect\_injuries.py\<close>

lemma str_nat_2: "str_nat 2 = ''2''"
  by (simp add: str_nat.simps digit_def)

lemma make_candidate_sel [simp]:
  "reason (make_candidate s r av) = r"
  "cand_avg_duration (make_candidate s r av) = av"
  "session_info.truncate (make_candidate s r av) = s"
  "si_athlete_id (make_candidate s r av) = si_athlete_id s"
  "si_activity_id (make_candidate s r av) = si_activity_id s"
  "si_date (make_candidate s r av) = si_date s"
  "si_athlete_name (make_candidate s r av) = si_athlete_name s"
  by (simp_all add: make_candidate_def session_info.extend_def candidate.fields_def
        session_info.truncate_def)

text \<open>
  C4. A session file that the loop reads is flagged by the per-file heuristic exactly
  when its size is below 1000 bytes or its sample count is below 100. The reason is
  \<open>NO DATA (file < 1KB)\<close> when the size is below 1000 bytes, and
  \<open>MINIMAL DATA (N points)\<close>, with N the sample count, otherwise.
\<close>

theorem per_file_heuristic:
  assumes "session_of_file f = Some s"
  shows "(\<exists>p. fe_content f = Some p
              \<and> si_data_points s = length (get_or [] (data (payload_obj p))))
       \<and> file_size s = st_size f
       \<and> (flag_suspicious s \<noteq> None \<longleftrightarrow> st_size f < 1000 \<or> si_data_points s < 100)
       \<and> (st_size f < 1000
            \<longrightarrow> map_option reason (flag_suspicious s) = Some ''NO DATA (file < 1KB)'')
       \<and> (\<not> st_size f < 1000 \<and> si_data_points s < 100
            \<longrightarrow> map_option reason (flag_suspicious s)
                  = Some (''MINIMAL DATA ('' @ str_nat (si_data_points s) @ '' points)''))
       \<and> (\<forall>c. flag_suspicious s = Some c \<longrightarrow> session_info.truncate c = s)"
proof -
  have "(\<exists>p. fe_content f = Some p
              \<and> si_data_points s = length (get_or [] (data (payload_obj p))))
       \<and> file_size s = st_size f"
    using assms
    by (auto simp: session_of_file_def Let_def split: list.splits option.splits)
  then show ?thesis
    by (auto simp: flag_suspicious_def)
qed

lemma split_filename2:
  "split_on (CHR ''_'') (remove_sub ''.json'' ''2025-01-09_a2_act1.json'')
     = [''2025-01-09'', ''a2'', ''act1'']"
  by simp

lemma session_of_file_a1:
  "session_of_file (session_file ''2025-01-09_a1_act1.json'' sz secs)
     = Some (session_a ''a1'' sz (secs / 60))"
  by (simp add: session_of_file_def session_file_def split_filename session_payload_def
        payload_obj_def get_or_def strip_Ann_Lee session_a_def smp_def
        del: split_on.simps remove_sub.simps)

lemma session_of_file_a2:
  "session_of_file (session_file ''2025-01-09_a2_act1.json'' sz secs)
     = Some (session_a ''a2'' sz (secs / 60))"
  by (simp add: session_of_file_def session_file_def split_filename2 session_payload_def
        payload_obj_def get_or_def strip_Ann_Lee session_a_def smp_def
        del: split_on.simps remove_sub.simps)

theorem per_file_heuristic_witness:
  "session_of_file (session_file ''2025-01-09_a1_act1.json'' 1500 3600)
     = Some (session_a ''a1'' 1500 60)
   \<and> map_option reason (flag_suspicious (session_a ''a1'' 1500 60))
       = Some ''MINIMAL DATA (2 points)''
   \<and> session_of_file (session_file ''2025-01-09_a1_act1.json'' 500 3600)
       = Some (session_a ''a1'' 500 60)
   \<and> map_option reason (flag_suspicious (session_a ''a1'' 500 60))
       = Some ''NO DATA (file < 1KB)''"
proof -
  have a: "session_of_file (session_file ''2025-01-09_a1_act1.json'' 1500 3600)
             = Some (session_a ''a1'' 1500 60)"
    and b: "session_of_file (session_file ''2025-01-09_a1_act1.json'' 500 3600)
             = Some (session_a ''a1'' 500 60)"
    by (simp_all add: session_of_file_a1)
  have sz: "st_size (session_file ''2025-01-09_a1_act1.json'' 1500 3600) = 1500"
    "st_size (session_file ''2025-01-09_a1_act1.json'' 500 3600) = 500"
    "si_data_points (session_a ''a1'' 1500 60) = 2"
    by (simp_all add: session_file_def session_a_def)
  show ?thesis
    using per_file_heuristic [OF a] per_file_heuristic [OF b]
    unfolding sz by (simp add: a b str_nat_2)
qed

lemma unique_loop_subset: "set (unique_loop seen cs) \<subseteq> set cs"
  by (induction cs arbitrary: seen) auto

lemma unique_loop_keys:
  "candidate_key ` set (unique_loop seen cs) = candidate_key ` set cs - seen"
  by (induction cs arbitrary: seen) auto

lemma unique_loop_distinct: "distinct (map candidate_key (unique_loop seen cs))"
  by (induction cs arbitrary: seen) (auto simp: unique_loop_keys)

lemma unique_loop_find:
  "k \<notin> seen \<Longrightarrow>
     find (\<lambda>c. candidate_key c = k) (unique_loop seen cs) = find (\<lambda>c. candidate_key c = k) cs"
  by (induction cs arbitrary: seen) auto

lemma filter_distinct_key:
  assumes "distinct (map f xs)" "find (\<lambda>x. f x = k) xs = Some y"
  shows "filter (\<lambda>x. f x = k) xs = [y]"
  using assms
proof (induction xs)
  case Nil
  then show ?case by simp
next
  case (Cons x xs)
  show ?case
  proof (cases "f x = k")
    case True
    have "\<forall>z \<in> set xs. f z \<noteq> k"
    proof
      fix z assume "z \<in> set xs"
      then have "f z \<in> f ` set xs" by (rule imageI)
      moreover have "f x \<notin> f ` set xs" using Cons.prems(1) by simp
      ultimately show "f z \<noteq> k" using True by metis
    qed
    then have "filter (\<lambda>z. f z = k) xs = []"
      by (simp add: filter_empty_conv)
    with True Cons.prems(2) show ?thesis by simp
  next
    case False
    with Cons show ?thesis by simp
  qed
qed

lemma find_Some_mem: "x \<in> set xs \<Longrightarrow> P x \<Longrightarrow> \<exists>y. find P xs = Some y"
  by (induction xs) auto

text \<open>
  C5. For every key (athlete_id, activity_id) that some candidate carries, the final list
  of detected injuries has exactly one entry with that key, and it is the first candidate
  seen with it, so it carries the first-seen reason. The final list is sorted ascending by
  (date, athlete_name) and holds candidates only.
\<close>

theorem dedup_keeps_first_sorted:
  assumes "c \<in> set (injured_candidates files)"
  shows "map Some (filter (\<lambda>x. candidate_key x = candidate_key c) (analyze_injuries files))
           = [find (\<lambda>x. candidate_key x = candidate_key c) (injured_candidates files)]
       \<and> find (\<lambda>x. candidate_key x = candidate_key c) (injured_candidates files) \<noteq> None
       \<and> sorted (map order_key (analyze_injuries files))
       \<and> set (analyze_injuries files) \<subseteq> set (injured_candidates files)"
proof -
  let ?cs = "injured_candidates files"
  let ?P = "\<lambda>x. candidate_key x = candidate_key c"
  obtain y where y: "find ?P ?cs = Some y"
    using find_Some_mem [OF assms, of ?P] by auto
  have u: "find ?P (unique_loop {} ?cs) = Some y"
    by (simp add: unique_loop_find y)
  have "filter ?P (analyze_injuries files) = sort_key order_key (filter ?P (unique_loop {} ?cs))"
    by (simp add: analyze_injuries_def unique_injured_def filter_sort)
  also have "filter ?P (unique_loop {} ?cs) = [y]"
    by (rule filter_distinct_key [OF unique_loop_distinct u])
  finally have one: "filter ?P (analyze_injuries files) = [y]" by simp
  have srt: "sorted (map order_key (analyze_injuries files))"
    by (simp add: analyze_injuries_def unique_injured_def)
  have sub: "set (analyze_injuries files) \<subseteq> set ?cs"
    using unique_loop_subset [of "{}" ?cs] by (simp add: analyze_injuries_def unique_injured_def)
  show ?thesis using one srt sub by (simp add: y)
qed


lemma activity_sessions:
  "List.map_filter session_of_file activity_files
     = [session_a ''a1'' 1500 60, session_a ''a2'' 1500 10]"
  by (simp add: activity_files_def session_of_file_a1 session_of_file_a2)

lemma activity_avgs:
  "activity_avg_duration [session_a ''a1'' 1500 60, session_a ''a2'' 1500 10]
     = [(''act1'', 35)]"
  by (simp add: activity_avg_duration_def session_durations_def session_a_def)

lemma activity_athletes:
  "athlete_sessions [session_a ''a1'' 1500 60, session_a ''a2'' 1500 10]
     = [(''a1'', [session_a ''a1'' 1500 60]), (''a2'', [session_a ''a2'' 1500 10])]"
  by (simp add: athlete_sessions_def session_a_def)

lemma session_a_sel [simp]:
  "file_size (session_a aid sz m) = sz"
  "si_data_points (session_a aid sz m) = 2"
  "duration_minutes (session_a aid sz m) = m"
  "si_activity_id (session_a aid sz m) = ''act1''"
  "si_athlete_id (session_a aid sz m) = aid"
  by (simp_all add: session_a_def)

lemma flag_session_a:
  "flag_suspicious (session_a aid 1500 m)
     = Some (make_candidate (session_a aid 1500 m) ''MINIMAL DATA (2 points)'' None)"
  by (simp add: flag_suspicious_def str_nat_2)

lemma early_exit_a1: "early_exit [(''act1'', 35)] (session_a ''a1'' 1500 60) = None"
  by (simp add: early_exit_def)

lemma early_exit_a2:
  "early_exit [(''act1'', 35)] (session_a ''a2'' 1500 10)
     = Some (make_candidate (session_a ''a2'' 1500 10)
               ''EARLY EXIT (10.0 min vs avg 35.0 min)'' (Some 35))"
  by (simp add: early_exit_def fmt1_10 fmt1_35)

lemma activity_candidates:
  "injured_candidates activity_files
     = [make_candidate (session_a ''a1'' 1500 60) ''MINIMAL DATA (2 points)'' None,
        make_candidate (session_a ''a2'' 1500 10) ''MINIMAL DATA (2 points)'' None,
        make_candidate (session_a ''a2'' 1500 10) ''EARLY EXIT (10.0 min vs avg 35.0 min)''
          (Some 35)]"
  unfolding injured_candidates_def Let_def activity_sessions activity_avgs activity_athletes
  by (simp add: flag_session_a early_exit_a1 early_exit_a2)

lemma candidate_key_make [simp]:
  "candidate_key (make_candidate s r av) = (si_athlete_id s, si_activity_id s)"
  by (simp add: candidate_key_def)

theorem dedup_keeps_first_sorted_witness:
  "make_candidate (session_a ''a2'' 1500 10) ''EARLY EXIT (10.0 min vs avg 35.0 min)'' (Some 35)
     \<in> set (injured_candidates activity_files)
   \<and> map reason (filter (\<lambda>x. candidate_key x = (''a2'', ''act1''))
                    (injured_candidates activity_files))
       = [''MINIMAL DATA (2 points)'', ''EARLY EXIT (10.0 min vs avg 35.0 min)'']
   \<and> map reason (filter (\<lambda>x. candidate_key x = (''a2'', ''act1''))
                    (analyze_injuries activity_files))
       = [''MINIMAL DATA (2 points)'']
   \<and> sorted (map order_key (analyze_injuries activity_files))"
proof -
  let ?e = "make_candidate (session_a ''a2'' 1500 10)
              ''EARLY EXIT (10.0 min vs avg 35.0 min)'' (Some 35)"
  let ?m = "make_candidate (session_a ''a2'' 1500 10) ''MINIMAL DATA (2 points)'' None"
  have mem: "?e \<in> set (injured_candidates activity_files)"
    by (simp add: activity_candidates)
  have fnd: "find (\<lambda>x. candidate_key x = (''a2'', ''act1'')) (injured_candidates activity_files)
               = Some ?m"
    by (simp add: activity_candidates)
  have key: "candidate_key ?e = (''a2'', ''act1'')" by simp
  have "map Some (filter (\<lambda>x. candidate_key x = (''a2'', ''act1''))
                    (analyze_injuries activity_files)) = [Some ?m]"
    and srt: "sorted (map order_key (analyze_injuries activity_files))"
    using dedup_keeps_first_sorted [OF mem] unfolding fnd key by simp_all
  then have "filter (\<lambda>x. candidate_key x = (''a2'', ''act1''))
                    (analyze_injuries activity_files) = [?m]"
    by (simp add: map_eq_Cons_conv)
  then show ?thesis
    using mem srt by (simp add: activity_candidates)
qed

section \<open>The per-day heuristic on a day of full sessions\<close>

text \<open>
  For contrast with the day of short drills: on a day with sessions of 60, 58, 55 and 20
  minutes (mean 48.25) the 20-minute session, and no other, is flagged as an early exit.
\<close>

lemma match_avg: "avg (map lw_duration_minutes match_day) = 193 / 4"
proof -
  have "fsum [60, 58, 55, 20] = 193"
    by (simp add: fsum_def fadd_def fl64_numeral)
  then show ?thesis
    by (simp add: avg_def fdiv_def match_day_def lw_def fl64_193_4)
qed

lemma match_day_early_exit:
  "map det_reason (detect_injuries_on_date match_day ''2025-01-17'')
     = [''EARLY EXIT (20.0 min vs avg 48.2 min)'']"
proof -
  have s: "date_sessions match_day ''2025-01-17'' = match_day"
    by (simp add: date_sessions_def match_day_def lw_def)
  have a: "avg (map lw_duration_minutes match_day) = 193 / 4"
    by (rule match_avg)
  show ?thesis
    unfolding detect_injuries_on_date_def Let_def s a
    by (simp add: match_day_def lw_def detect_session_def fmt1_20 fmt1_48_25)
qed

end
